theory Spec2Isabelle
  imports Complex_Main "HOL-Library.Sublist" "HOL-Library.Word"
begin

section \<open>JSON values and the schema combinators used by \<^verbatim>\<open>AcordSchema\<close>\<close>

text \<open>
  The values exchanged with the external model and returned to the browser are JSON
  values. An object is kept as the list of its key/value pairs, read with \<open>map_of\<close>.
  The schema never inspects the value of a number, only that it is one.
\<close>

datatype json =
    JNull
  | JBool bool
  | JNum rat
  | JStr string
  | JArr "json list"
  | JObj "(string \<times> json) list"

text \<open>
  \<^verbatim>\<open>route.ts\<close> builds its schema from seven combinators of the validation library:
  \<^verbatim>\<open>z.string()\<close>, \<^verbatim>\<open>z.number()\<close>, \<^verbatim>\<open>z.literal(s)\<close>, \<^verbatim>\<open>.nullable()\<close>,
  \<^verbatim>\<open>.default(v)\<close>, \<^verbatim>\<open>z.array(s)\<close> and \<^verbatim>\<open>z.object({...})\<close>.
\<close>

datatype schema =
    ZString
  | ZNumber
  | ZLiteral string
  | ZNullable schema
  | ZDefault schema json
  | ZArray schema
  | ZObject "(string \<times> schema) list"

text \<open>
  \<open>parse s v\<close> is the library's parse of the input \<open>v\<close> against \<open>s\<close>; the input
  \<open>None\<close> is JavaScript's \<^verbatim>\<open>undefined\<close>, which is what reading a missing key of an
  object gives. The result \<open>None\<close> is a validation failure.
  \<^item> a string, number or literal schema accepts exactly a value of that kind;
  \<^item> \<^verbatim>\<open>.nullable()\<close> answers \<^verbatim>\<open>null\<close> for the input \<^verbatim>\<open>null\<close> and hands every other
    input, \<^verbatim>\<open>undefined\<close> included, to the inner schema;
  \<^item> \<^verbatim>\<open>.default(v)\<close> answers \<open>v\<close> for the input \<^verbatim>\<open>undefined\<close> and hands every other
    input, \<^verbatim>\<open>null\<close> included, to the inner schema;
  \<^item> an array schema parses every element; an object schema parses, for each key of
    its shape in order, the value the input holds under that key, and drops the keys
    the shape does not name.

  The library collects every issue before it fails; the model stops at the first one,
  which gives the same outcome.
\<close>

fun parse :: "schema \<Rightarrow> json option \<Rightarrow> json option"
and parse_shape :: "(string \<times> schema) list \<Rightarrow> (string \<times> json) list \<Rightarrow> (string \<times> json) list option"
and parse_items :: "schema \<Rightarrow> json list \<Rightarrow> json list option"
where
  "parse ZString v = (case v of Some (JStr s) \<Rightarrow> Some (JStr s) | _ \<Rightarrow> None)"
| "parse ZNumber v = (case v of Some (JNum n) \<Rightarrow> Some (JNum n) | _ \<Rightarrow> None)"
| "parse (ZLiteral l) v = (case v of Some (JStr s) \<Rightarrow> if s = l then Some (JStr s) else None | _ \<Rightarrow> None)"
| "parse (ZNullable s) v = (case v of Some JNull \<Rightarrow> Some JNull | _ \<Rightarrow> parse s v)"
| "parse (ZDefault s d) v = (case v of None \<Rightarrow> Some d | _ \<Rightarrow> parse s v)"
| "parse (ZArray s) v = (case v of Some (JArr xs) \<Rightarrow> map_option JArr (parse_items s xs) | _ \<Rightarrow> None)"
| "parse (ZObject shape) v = (case v of Some (JObj kvs) \<Rightarrow> map_option JObj (parse_shape shape kvs) | _ \<Rightarrow> None)"
| "parse_shape [] kvs = Some []"
| "parse_shape ((k, s) # shape) kvs =
     (case parse s (map_of kvs k) of
        None \<Rightarrow> None
      | Some v \<Rightarrow> (case parse_shape shape kvs of None \<Rightarrow> None | Some out \<Rightarrow> Some ((k, v) # out)))"
| "parse_items s [] = Some []"
| "parse_items s (x # xs) =
     (case parse s (Some x) of
        None \<Rightarrow> None
      | Some v \<Rightarrow> (case parse_items s xs of None \<Rightarrow> None | Some out \<Rightarrow> Some (v # out)))"

text \<open>\<^verbatim>\<open>schema.safeParse(value)\<close>: a value that is present is parsed.\<close>

definition safeParse :: "schema \<Rightarrow> json \<Rightarrow> json option" where
  "safeParse s v = parse s (Some v)"

subsection \<open>\<^verbatim>\<open>AcordSchema\<close> (route.ts, lines 24 to 82)\<close>

definition certificate_information_schema :: schema where
  "certificate_information_schema = ZObject
     [(''certificate_holder'', ZString),
      (''certificate_number'', ZString),
      (''revision_number'', ZNullable ZString),
      (''issue_date'', ZString)]"

definition insurer_schema :: schema where
  "insurer_schema = ZObject
     [(''insurer_letter'', ZString),
      (''insurer_name'', ZString),
      (''naic_code'', ZNullable ZString)]"

definition policy_information_schema :: schema where
  "policy_information_schema = ZObject
     [(''policy_type'', ZString),
      (''policy_number'', ZString),
      (''effective_date'', ZString),
      (''expiry_date'', ZString)]"

definition coverage_schema :: schema where
  "coverage_schema = ZObject
     [(''limit_type'', ZString),
      (''limit_value'', ZNumber)]"

definition policy_schema :: schema where
  "policy_schema = ZObject
     [(''policy_information'', policy_information_schema),
      (''insurer_letter'', ZString),
      (''coverages'', ZDefault (ZArray coverage_schema) (JArr []))]"

definition primary_details_schema :: schema where
  "primary_details_schema = ZObject
     [(''full_name'', ZNullable ZString),
      (''email_address'', ZNullable ZString),
      (''doing_business_as'', ZNullable ZString)]"

definition contact_information_schema :: schema where
  "contact_information_schema = ZObject
     [(''phone_number'', ZString),
      (''fax_number'', ZNullable ZString),
      (''license_number'', ZNullable ZString)]"

definition address_details_schema :: schema where
  "address_details_schema = ZObject
     [(''address_line_1'', ZString),
      (''address_line_2'', ZNullable ZString),
      (''address_line_3'', ZNullable ZString),
      (''city'', ZString),
      (''state'', ZString),
      (''zip_code'', ZString),
      (''country'', ZLiteral ''USA'')]"

definition producer_information_schema :: schema where
  "producer_information_schema = ZObject
     [(''primary_details'', primary_details_schema),
      (''contact_information'', contact_information_schema),
      (''address_details'', address_details_schema)]"

definition AcordSchema :: schema where
  "AcordSchema = ZObject
     [(''certificate_information'', certificate_information_schema),
      (''insurers'', ZDefault (ZArray insurer_schema) (JArr [])),
      (''policies'', ZDefault (ZArray policy_schema) (JArr [])),
      (''producer_information'', producer_information_schema)]"

section \<open>Strings, thrown values and effects\<close>

text \<open>
  A value thrown by JavaScript code is either an \<^verbatim>\<open>Error\<close> instance, with its name and
  its message, or some other value; of the latter the code only ever reads the text
  \<^verbatim>\<open>String(v?.message || v)\<close>, which is what \<open>NonError\<close> carries.
\<close>

datatype thrown = Error string string | NonError string

text \<open>\<^verbatim>\<open>new Error(message)\<close>\<close>

definition new_Error :: "string \<Rightarrow> thrown" where
  "new_Error message = Error ''Error'' message"

text \<open>\<^verbatim>\<open>e instanceof Error ? e.message : 'Unknown error'\<close>\<close>

definition message_of :: "thrown \<Rightarrow> string" where
  "message_of e = (case e of Error _ m \<Rightarrow> m | NonError _ \<Rightarrow> ''Unknown error'')"

text \<open>
  \<^verbatim>\<open>String((lastError as Error | undefined)?.message || lastError)\<close>: the message when
  there is a non-empty one, else the value's own text (for an \<^verbatim>\<open>Error\<close> with an
  empty message that is its name; for the initial \<^verbatim>\<open>null\<close> it is \<^verbatim>\<open>null\<close>).
\<close>

definition error_text :: "thrown option \<Rightarrow> string" where
  "error_text lastError =
     (case lastError of
        None \<Rightarrow> ''null''
      | Some (Error name m) \<Rightarrow> (if m \<noteq> [] then m else name)
      | Some (NonError s) \<Rightarrow> s)"

text \<open>\<^verbatim>\<open>s.includes(sub)\<close>: \<open>sub\<close> occurs in \<open>s\<close> as a contiguous block.\<close>

fun includes_str :: "string \<Rightarrow> string \<Rightarrow> bool" where
  "includes_str [] sub = (sub = [])"
| "includes_str (c # cs) sub = (prefix sub (c # cs) \<or> includes_str cs sub)"

text \<open>\<^verbatim>\<open>s.trim()\<close>, on the ASCII white space and line terminators.\<close>

definition is_space :: "char \<Rightarrow> bool" where
  "is_space c = (c \<in> set [CHR 0x09, CHR 0x0A, CHR 0x0B, CHR 0x0C, CHR 0x0D, CHR 0x20])"

definition trim :: "string \<Rightarrow> string" where
  "trim s = rev (dropWhile is_space (rev (dropWhile is_space s)))"

text \<open>The decimal text of a number, as a template literal prints it.\<close>

definition digit_char :: "nat \<Rightarrow> char" where
  "digit_char d = ''0123456789'' ! d"

function string_of_nat :: "nat \<Rightarrow> string" where
  "string_of_nat n =
     (if n < 10 then [digit_char n] else string_of_nat (n div 10) @ [digit_char (n mod 10)])"
  by pat_completeness auto
termination
  by (relation "measure (\<lambda>n. n)") auto

declare string_of_nat.simps [simp del]

text \<open>
  The contents of a \<^verbatim>\<open>Uint8Array\<close>. The calls that leave the process are recorded, in
  order, as events: a parse of a PDF by the PDF library, a request to the external
  model, and a \<^verbatim>\<open>setTimeout\<close> wait in milliseconds.
\<close>

type_synonym bytes = "8 word list"

datatype event = PdfLoad bytes | ModelCall bytes | Wait nat

section \<open>Page truncation (route.ts, lines 12 to 21)\<close>

text \<open>
  The PDF library is a parameter. A loaded document is the list of its pages;
  \<^verbatim>\<open>PDFDocument.load\<close> may throw, and so may the serialisation of a document that was
  built from copied pages (\<^verbatim>\<open>save\<close>). \<^verbatim>\<open>PDFDocument.create\<close>, \<^verbatim>\<open>copyPages\<close> on indices
  below the page count and \<^verbatim>\<open>addPage\<close> are taken not to throw, and so is reading the
  bytes of a file (\<^verbatim>\<open>arrayBuffer\<close>).
\<close>

record 'p pdf_lib =
  load :: "bytes \<Rightarrow> thrown + 'p list"
  save :: "'p list \<Rightarrow> thrown + bytes"

text \<open>\<^verbatim>\<open>newPdf.copyPages(src, indices)\<close>: the pages of \<open>src\<close> at the given indices.\<close>

definition copyPages :: "'p list \<Rightarrow> nat list \<Rightarrow> 'p list" where
  "copyPages src indices = map (\<lambda>i. src ! i) indices"

text \<open>\<^verbatim>\<open>copy.forEach(p => newPdf.addPage(p))\<close>\<close>

definition addPages :: "'p list \<Rightarrow> 'p list \<Rightarrow> 'p list" where
  "addPages newPdf copy = foldl (\<lambda>doc p. doc @ [p]) newPdf copy"

definition first_five :: "'p list \<Rightarrow> 'p list" where
  "first_five pdfDoc =
     (let pageCount = length pdfDoc;
          indices = [0, 1, 2, 3, 4];
          copy = copyPages pdfDoc (filter (\<lambda>i. i < pageCount) indices)
      in addPages [] copy)"

definition truncatePDFToFivePagesBuffer :: "'p pdf_lib \<Rightarrow> bytes \<Rightarrow> (thrown + bytes) \<times> event list" where
  "truncatePDFToFivePagesBuffer lib inputBytes =
     (case load lib inputBytes of
        Inl e \<Rightarrow> (Inl e, [PdfLoad inputBytes])
      | Inr pdfDoc \<Rightarrow>
          (let pageCount = length pdfDoc in
           if pageCount \<le> 5 then (Inr inputBytes, [PdfLoad inputBytes])
           else (save lib (first_five pdfDoc), [PdfLoad inputBytes])))"

section \<open>The call of the external model (route.ts, lines 87 to 133)\<close>

text \<open>
  \<^verbatim>\<open>generateObject\<close> of the AI SDK sends one request and validates the answer against
  the schema it was given: it throws what the transport or the provider threw (an
  answer that is not JSON counts as such), throws when the answer does not match the
  schema, and otherwise returns the parsed value. \<open>respond\<close> is the external model's
  answer to this request.
\<close>

definition generateObject :: "(bytes \<Rightarrow> thrown + json) \<Rightarrow> schema \<Rightarrow> bytes \<Rightarrow> thrown + json" where
  "generateObject respond schema pdfBytes =
     (case respond pdfBytes of
        Inl e \<Rightarrow> Inl e
      | Inr candidate \<Rightarrow>
          (case safeParse schema candidate of
             None \<Rightarrow> Inl (Error ''AI_NoObjectGeneratedError''
                            ''No object generated: response did not match schema.'')
           | Some object \<Rightarrow> Inr object))"

definition MAX_RETRIES :: nat where
  "MAX_RETRIES = 3"

text \<open>\<^verbatim>\<open>!GEMINI_API_KEY || GEMINI_API_KEY.trim() === ''\<close>; \<open>None\<close> is an unset variable.\<close>

definition credential_unset :: "string option \<Rightarrow> bool" where
  "credential_unset key = (case key of None \<Rightarrow> True | Some k \<Rightarrow> k = [] \<or> trim k = [])"

text \<open>
  The \<^verbatim>\<open>while\<close> loop and the final \<^verbatim>\<open>throw\<close>. \<open>model k\<close> is the external model's
  answer to the \<open>k\<close>-th request from now; \<open>trace\<close> holds the events so far.
\<close>

function retry_loop ::
  "(nat \<Rightarrow> bytes \<Rightarrow> thrown + json) \<Rightarrow> bytes \<Rightarrow> nat \<Rightarrow> thrown option \<Rightarrow> event list
     \<Rightarrow> (thrown + json) \<times> event list" where
  "retry_loop model pdfBytes attempt lastError trace =
     (if attempt < MAX_RETRIES then
        (case generateObject (model 0) (ZNullable AcordSchema) pdfBytes of
           Inr object \<Rightarrow> (Inr object, trace @ [ModelCall pdfBytes])
         | Inl err \<Rightarrow>
             (let attempt' = attempt + 1;
                  delayMs = 2 ^ attempt' * 1000
              in retry_loop (\<lambda>k. model (Suc k)) pdfBytes attempt' (Some err)
                   (trace @ [ModelCall pdfBytes] @ (if attempt' < MAX_RETRIES then [Wait delayMs] else []))))
      else
        (Inl (new_Error (''Failed to get response from Gemini via AI SDK after ''
                @ string_of_nat MAX_RETRIES @ '' attempts: '' @ error_text lastError)),
         trace))"
  by pat_completeness auto
termination
  by (relation "measure (\<lambda>(model, pdfBytes, attempt, lastError, trace). MAX_RETRIES - attempt)") auto

declare retry_loop.simps [simp del]

definition callGeminiUsingAiSdk ::
  "string option \<Rightarrow> (nat \<Rightarrow> bytes \<Rightarrow> thrown + json) \<Rightarrow> bytes \<Rightarrow> (thrown + json) \<times> event list" where
  "callGeminiUsingAiSdk GEMINI_API_KEY model pdfBytes =
     (if credential_unset GEMINI_API_KEY
      then (Inl (new_Error ''GEMINI_API_KEY is not set in environment variables''), [])
      else retry_loop model pdfBytes 0 None [])"

section \<open>The upload endpoint (route.ts, lines 135 to 173)\<close>

record File =
  fname :: string
  ftype :: string
  fbytes :: bytes

text \<open>An entry of a multipart form is a file or a text field; \<open>fsize\<close> is \<^verbatim>\<open>file.size\<close>.\<close>

datatype form_entry = FileEntry File | TextEntry string

type_synonym form_data = "(string \<times> form_entry) list"

definition fsize :: "File \<Rightarrow> nat" where
  "fsize f = length (fbytes f)"

record response =
  status :: nat
  body :: "(string \<times> json) list"

text \<open>\<^verbatim>\<open>NextResponse.json(body, { status })\<close>; the status is 200 when none is given.\<close>

definition NextResponse_json :: "(string \<times> json) list \<Rightarrow> nat \<Rightarrow> response" where
  "NextResponse_json b st = \<lparr>status = st, body = b\<rparr>"

record 'p server =
  GEMINI_API_KEY :: "string option"
  pdf :: "'p pdf_lib"
  model :: "nat \<Rightarrow> bytes \<Rightarrow> thrown + json"

definition maxBytes :: nat where
  "maxBytes = 4 * 1024 * 1024"

text \<open>The \<^verbatim>\<open>catch\<close> block of the handler.\<close>

definition normalizedMessage :: "thrown \<Rightarrow> string" where
  "normalizedMessage e =
     (let message = message_of e in
      if includes_str message ''GEMINI_API_KEY'' then ''API key configuration error''
      else if includes_str message ''not a valid PDF'' then ''The uploaded file is not a valid PDF''
      else ''Error processing PDF: '' @ message)"

definition on_catch :: "thrown \<Rightarrow> response" where
  "on_catch e = NextResponse_json [(''error'', JStr (normalizedMessage e))] 400"

text \<open>
  The handler. \<open>req\<close> is what \<^verbatim>\<open>req.formData()\<close> gives: the form, or what it threw.
  \<^verbatim>\<open>formData.get('file')\<close> is the first entry of that name.
\<close>

definition POST :: "'p server \<Rightarrow> thrown + form_data \<Rightarrow> response \<times> event list" where
  "POST env req =
     (case req of
        Inl e \<Rightarrow> (on_catch e, [])
      | Inr formData \<Rightarrow>
          (case map_of formData ''file'' of
             Some (FileEntry file) \<Rightarrow>
               if ftype file \<noteq> ''application/pdf''
               then (NextResponse_json [(''error'', JStr ''Uploaded file must be a PDF'')] 400, [])
               else if fsize file > maxBytes
               then (NextResponse_json [(''error'', JStr ''File too large. Max 4MB.'')] 400, [])
               else
                 (let originalBytes = fbytes file in
                  case truncatePDFToFivePagesBuffer (pdf env) originalBytes of
                    (Inl e, t1) \<Rightarrow> (on_catch e, t1)
                  | (Inr processedBytes, t1) \<Rightarrow>
                      (case callGeminiUsingAiSdk (GEMINI_API_KEY env) (model env) processedBytes of
                         (Inl e, t2) \<Rightarrow> (on_catch e, t1 @ t2)
                       | (Inr json, t2) \<Rightarrow> (NextResponse_json [(''data'', json)] 200, t1 @ t2)))
           | _ \<Rightarrow> (NextResponse_json [(''error'', JStr ''No file uploaded'')] 400, [])))"

section \<open>The submission client (page.tsx, lines 60 to 110)\<close>

text \<open>\<^verbatim>\<open>name.replace(/\.pdf$/i, '')\<close>\<close>

definition lower_ascii :: "char \<Rightarrow> char" where
  "lower_ascii c = (if c = CHR ''P'' then CHR ''p'' else if c = CHR ''D'' then CHR ''d''
                    else if c = CHR ''F'' then CHR ''f'' else c)"

definition strip_pdf_suffix :: "string \<Rightarrow> string" where
  "strip_pdf_suffix name =
     (let n = length name in
      if 4 \<le> n \<and> map lower_ascii (drop (n - 4) name) = ''.pdf'' then take (n - 4) name else name)"

datatype client_event = Warn thrown | Fetch form_data

text \<open>
  The inner \<^verbatim>\<open>try\<close>/\<^verbatim>\<open>catch\<close> (lines 73 to 92): the file to send and what was logged
  with \<^verbatim>\<open>console.warn\<close>.
\<close>

definition client_truncate :: "'p pdf_lib \<Rightarrow> File \<Rightarrow> File \<times> client_event list" where
  "client_truncate lib originalFile =
     (let bytes = fbytes originalFile in
      case load lib bytes of
        Inl clientPdfErr \<Rightarrow> (originalFile, [Warn clientPdfErr])
      | Inr originalPdf \<Rightarrow>
          (let pageCount = length originalPdf in
           if pageCount > 5 then
             (case save lib (first_five originalPdf) of
                Inl clientPdfErr \<Rightarrow> (originalFile, [Warn clientPdfErr])
              | Inr out \<Rightarrow>
                  (\<lparr>fname = strip_pdf_suffix (fname originalFile) @ ''.first5.pdf'',
                    ftype = ''application/pdf'',
                    fbytes = out\<rparr>, []))
           else (originalFile, [])))"

record ui_state =
  json :: json
  error :: "string option"
  loading :: bool

text \<open>\<^verbatim>\<open>result.error\<close> of the declared type \<^verbatim>\<open>{ data?: AnalysisResponse; error?: string }\<close>.\<close>

definition error_field :: "(string \<times> json) list \<Rightarrow> string option" where
  "error_field result = (case map_of result ''error'' of Some (JStr m) \<Rightarrow> Some m | _ \<Rightarrow> None)"

text \<open>
  \<open>fetch\<close> is the transport: the parsed JSON body of the answer to the request, or
  what \<^verbatim>\<open>fetch\<close> or \<^verbatim>\<open>res.json()\<close> threw. An empty \<^verbatim>\<open>error\<close> string is not an error
  to the client, as it is falsy.
\<close>

definition handleSubmit ::
  "'p pdf_lib \<Rightarrow> (form_data \<Rightarrow> thrown + (string \<times> json) list) \<Rightarrow> File option
     \<Rightarrow> ui_state \<times> client_event list" where
  "handleSubmit lib fetch originalFile =
     (case originalFile of
        None \<Rightarrow> (\<lparr>json = JNull, error = Some ''Please select a PDF file'', loading = False\<rparr>, [])
      | Some f \<Rightarrow>
          (case client_truncate lib f of
             (fileToSend, warnings) \<Rightarrow>
               (let formData = [(''file'', FileEntry fileToSend)];
                    events = warnings @ [Fetch formData]
                in case fetch formData of
                     Inl err \<Rightarrow> (\<lparr>json = JNull, error = Some (message_of err), loading = False\<rparr>, events)
                   | Inr result \<Rightarrow>
                       (case error_field result of
                          Some m \<Rightarrow>
                            if m \<noteq> [] then (\<lparr>json = JNull, error = Some m, loading = False\<rparr>, events)
                            else (\<lparr>json = (case map_of result ''data'' of Some d \<Rightarrow> d | None \<Rightarrow> JNull),
                                   error = None, loading = False\<rparr>, events)
                        | None \<Rightarrow>
                            (\<lparr>json = (case map_of result ''data'' of Some d \<Rightarrow> d | None \<Rightarrow> JNull),
                              error = None, loading = False\<rparr>, events)))))"

section \<open>Reading candidates, schemas and traces\<close>

text \<open>
  \<open>field v k\<close> is \<^verbatim>\<open>v?.[k]\<close>, \<open>at_path\<close> follows a path of keys, \<open>items\<close> gives the
  elements of an array, and \<open>with_field\<close> is \<^verbatim>\<open>{ ...v, [k]: x }\<close> on an object.
  \<open>schema_at\<close> follows a path of keys through object schemas, and \<open>omit\<close> is the
  library's \<^verbatim>\<open>.omit({ [k]: true })\<close>.
\<close>

definition field :: "json option \<Rightarrow> string \<Rightarrow> json option" where
  "field v k = (case v of Some (JObj kvs) \<Rightarrow> map_of kvs k | _ \<Rightarrow> None)"

definition at_path :: "json option \<Rightarrow> string list \<Rightarrow> json option" where
  "at_path v path = foldl field v path"

definition items :: "json option \<Rightarrow> json list" where
  "items v = (case v of Some (JArr xs) \<Rightarrow> xs | _ \<Rightarrow> [])"

definition with_field :: "json \<Rightarrow> string \<Rightarrow> json \<Rightarrow> json" where
  "with_field v k x = (case v of JObj kvs \<Rightarrow> JObj ((k, x) # kvs) | _ \<Rightarrow> v)"

fun schema_at :: "schema \<Rightarrow> string list \<Rightarrow> schema option" where
  "schema_at s [] = Some s"
| "schema_at s (k # p) =
     (case s of
        ZObject shape \<Rightarrow> (case map_of shape k of Some s' \<Rightarrow> schema_at s' p | None \<Rightarrow> None)
      | _ \<Rightarrow> None)"

definition omit :: "string \<Rightarrow> schema \<Rightarrow> schema" where
  "omit k s = (case s of ZObject shape \<Rightarrow> ZObject (filter (\<lambda>(k', _). k' \<noteq> k) shape) | _ \<Rightarrow> s)"

text \<open>The number of requests to the external model in a trace.\<close>

definition model_calls :: "event list \<Rightarrow> nat" where
  "model_calls tr = length (filter (\<lambda>e. case e of ModelCall _ \<Rightarrow> True | _ \<Rightarrow> False) tr)"

text \<open>
  An attempt fails when the transport or the provider throws, or when the answer does
  not match \<^verbatim>\<open>AcordSchema.nullable()\<close>.
\<close>

definition attempt_fails :: "thrown + json \<Rightarrow> bool" where
  "attempt_fails answer =
     (case answer of Inl e \<Rightarrow> True | Inr candidate \<Rightarrow> safeParse (ZNullable AcordSchema) candidate = None)"

text \<open>A transport that delivers the form to the upload endpoint and its answer back.\<close>

definition fetch_from :: "'p server \<Rightarrow> form_data \<Rightarrow> thrown + (string \<times> json) list" where
  "fetch_from env formData = Inr (body (fst (POST env (Inr formData))))"

section \<open>Concrete inputs\<close>

text \<open>
  A certificate as the external model may answer it, with the lists left out; the
  entry for \<^verbatim>\<open>revision_number\<close> and the country are parameters.
\<close>

definition sample_producer :: "string \<Rightarrow> json" where
  "sample_producer country = JObj
     [(''primary_details'', JObj
         [(''full_name'', JNull),
          (''email_address'', JNull),
          (''doing_business_as'', JStr ''Acme Insurance Agency'')]),
      (''contact_information'', JObj
         [(''phone_number'', JStr ''5551234567''),
          (''fax_number'', JNull),
          (''license_number'', JNull)]),
      (''address_details'', JObj
         [(''address_line_1'', JStr ''1 Main St''),
          (''address_line_2'', JNull),
          (''address_line_3'', JNull),
          (''city'', JStr ''Springfield''),
          (''state'', JStr ''IL''),
          (''zip_code'', JStr ''62701''),
          (''country'', JStr country)])]"

definition sample_certificate :: "(string \<times> json) list \<Rightarrow> string \<Rightarrow> json" where
  "sample_certificate revision country = JObj
     [(''certificate_information'', JObj
         ([(''certificate_holder'', JStr ''Holder LLC''),
           (''certificate_number'', JStr ''C-1'')] @ revision @
          [(''issue_date'', JStr ''01/02/2024'')])),
      (''producer_information'', sample_producer country)]"

definition sample_validated :: json where
  "sample_validated = JObj
     [(''certificate_information'', JObj
         [(''certificate_holder'', JStr ''Holder LLC''),
          (''certificate_number'', JStr ''C-1''),
          (''revision_number'', JNull),
          (''issue_date'', JStr ''01/02/2024'')]),
      (''insurers'', JArr []),
      (''policies'', JArr []),
      (''producer_information'', sample_producer ''USA'')]"

text \<open>
  A toy paginated format: every byte is a page and the empty input does not parse;
  and a library whose \<^verbatim>\<open>load\<close> always throws.
\<close>

definition byte_pages :: "nat pdf_lib" where
  "byte_pages =
     \<lparr>load = (\<lambda>b. if b = [] then Inl (new_Error ''Failed to parse PDF document'') else Inr (map unat b)),
      save = (\<lambda>pages. Inr (map of_nat pages))\<rparr>"

definition unreadable :: "nat pdf_lib" where
  "unreadable =
     \<lparr>load = (\<lambda>b. Inl (new_Error ''Failed to parse PDF document'')),
      save = (\<lambda>pages. Inr (map of_nat pages))\<rparr>"

text \<open>
  An external model whose three answers are a network error, a provider error and a
  value that does not match the schema; and one that answers \<^verbatim>\<open>null\<close> after a
  network error.
\<close>

definition failing_model :: "nat \<Rightarrow> bytes \<Rightarrow> thrown + json" where
  "failing_model k b =
     (if k = 0 then Inl (Error ''TypeError'' ''fetch failed'')
      else if k = 1 then Inl (Error ''AI_APICallError'' ''quota exceeded'')
      else Inr (JBool True))"

definition null_model :: "nat \<Rightarrow> bytes \<Rightarrow> thrown + json" where
  "null_model k b = (if k = 0 then Inl (Error ''TypeError'' ''fetch failed'') else Inr JNull)"

definition sample_server :: "string option \<Rightarrow> (nat \<Rightarrow> bytes \<Rightarrow> thrown + json) \<Rightarrow> nat server" where
  "sample_server key mdl = \<lparr>GEMINI_API_KEY = key, pdf = byte_pages, model = mdl\<rparr>"

definition sample_upload :: "nat \<Rightarrow> File" where
  "sample_upload n = \<lparr>fname = ''coi.pdf'', ftype = ''application/pdf'', fbytes = replicate n 7\<rparr>"

section \<open>Properties of the schema validator\<close>

lemmas schema_defs = AcordSchema_def certificate_information_schema_def insurer_schema_def
  policy_information_schema_def coverage_schema_def policy_schema_def primary_details_schema_def
  contact_information_schema_def address_details_schema_def producer_information_schema_def

lemma parse_shape_fails:
  "(k, s) \<in> set shape \<Longrightarrow> parse s (map_of kvs k) = None \<Longrightarrow> parse_shape shape kvs = None"
  by (induction shape) (auto split: option.splits)

lemma parse_shape_lookup:
  "parse_shape shape kvs = Some out \<Longrightarrow>
     map_of out k = (case map_of shape k of None \<Rightarrow> None | Some s \<Rightarrow> parse s (map_of kvs k))"
  by (induction shape arbitrary: out) (auto split: option.splits)

lemma parse_object_field:
  assumes "parse (ZObject shape) v = Some out" and "map_of shape k = Some s"
  shows "parse s (field v k) = field (Some out) k \<and> field (Some out) k \<noteq> None"
proof -
  from assms(1) obtain kvs okvs where v: "v = Some (JObj kvs)" and out: "out = JObj okvs"
    and ps: "parse_shape shape kvs = Some okvs"
    by (auto split: option.splits json.splits)
  have mem: "(k, s) \<in> set shape" using assms(2) by (rule map_of_SomeD)
  have "map_of okvs k = parse s (map_of kvs k)"
    using parse_shape_lookup [OF ps, of k] assms(2) by simp
  moreover have "parse s (map_of kvs k) \<noteq> None"
    using parse_shape_fails [OF mem, of kvs] ps by auto
  ultimately show ?thesis by (simp add: field_def v out)
qed

lemma parse_items_nth:
  "parse_items s xs = Some ys \<Longrightarrow>
     length ys = length xs \<and> (\<forall>i<length xs. parse s (Some (xs ! i)) = Some (ys ! i))"
proof (induction xs arbitrary: ys)
  case Nil
  then show ?case by simp
next
  case (Cons x xs)
  then show ?case by (auto split: option.splits simp: nth_Cons')
qed

lemma parse_array_items:
  assumes "parse (ZDefault (ZArray s) (JArr [])) v = Some out"
  shows "length (items (Some out)) = length (items v) \<and>
         (\<forall>i<length (items v). parse s (Some (items v ! i)) = Some (items (Some out) ! i))"
  using assms parse_items_nth [of s]
  by (auto simp: items_def split: option.splits json.splits)

lemma parse_nullable_string:
  "parse (ZNullable ZString) x = Some y \<Longrightarrow> x = Some y \<and> (y = JNull \<or> (\<exists>s. y = JStr s))"
  by (auto split: option.splits json.splits)

lemma parse_literal:
  "parse (ZLiteral l) x = Some y \<Longrightarrow> x = Some (JStr l)"
  by (auto split: option.splits json.splits if_splits)

lemma missing_list_same:
  "field (Some cand) ''insurers'' = None \<Longrightarrow>
     safeParse AcordSchema cand = safeParse AcordSchema (with_field cand ''insurers'' (JArr []))"
  by (cases cand) (simp_all add: safeParse_def with_field_def field_def AcordSchema_def cong: option.case_cong)

lemma missing_list_same2:
  "field (Some cand) ''policies'' = None \<Longrightarrow>
     safeParse AcordSchema cand = safeParse AcordSchema (with_field cand ''policies'' (JArr []))"
  by (cases cand) (simp_all add: safeParse_def with_field_def field_def AcordSchema_def cong: option.case_cong)

lemma missing_list_same3:
  "field (Some p) ''coverages'' = None \<Longrightarrow>
     safeParse policy_schema p = safeParse policy_schema (with_field p ''coverages'' (JArr []))"
  by (cases p) (simp_all add: safeParse_def with_field_def field_def policy_schema_def cong: option.case_cong)

lemmas sample_defs = sample_certificate_def sample_producer_def sample_validated_def

lemma sample_ok:
  "safeParse AcordSchema (sample_certificate [(''revision_number'', JNull)] ''USA'') = Some sample_validated"
  by (simp add: safeParse_def schema_defs sample_defs)

lemma at_path_Cons: "at_path v (k # p) = at_path (field v k) p"
  by (simp add: at_path_def)

lemma parse_at:
  "parse s v = Some out \<Longrightarrow> schema_at s p = Some s' \<Longrightarrow>
     parse s' (at_path v p) = at_path (Some out) p \<and> at_path (Some out) p \<noteq> None"
proof (induction p arbitrary: s v out)
  case Nil
  then show ?case by (simp add: at_path_def)
next
  case (Cons k p)
  from Cons.prems(2) obtain shape s1 where s: "s = ZObject shape"
    and k: "map_of shape k = Some s1" and rest: "schema_at s1 p = Some s'"
    by (auto split: schema.splits option.splits)
  from parse_object_field [OF Cons.prems(1) [unfolded s] k] obtain o1
    where p1: "parse s1 (field v k) = Some o1" and f1: "field (Some out) k = Some o1"
    by auto
  from Cons.IH [OF p1 rest] show ?case
    by (simp add: at_path_Cons f1)
qed

lemma nullable_kept:
  "parse (ZNullable ZString) x = y \<and> y \<noteq> None \<Longrightarrow>
     y = x \<and> x \<noteq> None \<and> (x = Some JNull \<or> (\<exists>s. x = Some (JStr s)))"
  using parse_nullable_string [of x] by auto

lemma acord_nullable_leaves:
  assumes "safeParse AcordSchema cand = Some out"
    and "schema_at AcordSchema p = Some (ZNullable ZString)"
  shows "at_path (Some out) p = at_path (Some cand) p \<and> at_path (Some cand) p \<noteq> None \<and>
         (at_path (Some cand) p = Some JNull \<or> (\<exists>s. at_path (Some cand) p = Some (JStr s)))"
  by (rule nullable_kept, rule parse_at [OF assms(1) [unfolded safeParse_def] assms(2)])

lemma acord_country:
  assumes "safeParse AcordSchema cand = Some out"
  shows "at_path (Some cand) [''producer_information'', ''address_details'', ''country''] = Some (JStr ''USA'')"
proof -
  have "schema_at AcordSchema [''producer_information'', ''address_details'', ''country''] = Some (ZLiteral ''USA'')"
    by (simp add: AcordSchema_def producer_information_schema_def address_details_schema_def)
  from parse_at [OF assms(1) [unfolded safeParse_def] this]
  show ?thesis using parse_literal by force
qed

lemma acord_lists:
  assumes "safeParse AcordSchema cand = Some out"
  shows "parse (ZDefault (ZArray insurer_schema) (JArr [])) (field (Some cand) ''insurers'') = field (Some out) ''insurers''"
    and "parse (ZDefault (ZArray policy_schema) (JArr [])) (field (Some cand) ''policies'') = field (Some out) ''policies''"
    and "field (Some out) ''insurers'' \<noteq> None" and "field (Some out) ''policies'' \<noteq> None"
proof -
  have ok: "parse (ZObject
     [(''certificate_information'', certificate_information_schema),
      (''insurers'', ZDefault (ZArray insurer_schema) (JArr [])),
      (''policies'', ZDefault (ZArray policy_schema) (JArr [])),
      (''producer_information'', producer_information_schema)]) (Some cand) = Some out"
    using assms(1) by (simp add: safeParse_def AcordSchema_def)
  show "parse (ZDefault (ZArray insurer_schema) (JArr [])) (field (Some cand) ''insurers'') = field (Some out) ''insurers''"
    and "field (Some out) ''insurers'' \<noteq> None"
    using parse_object_field [OF ok, of "''insurers''"] by simp_all
  show "parse (ZDefault (ZArray policy_schema) (JArr [])) (field (Some cand) ''policies'') = field (Some out) ''policies''"
    and "field (Some out) ''policies'' \<noteq> None"
    using parse_object_field [OF ok, of "''policies''"] by simp_all
qed

lemma acord_insurer_items:
  assumes "safeParse AcordSchema cand = Some out" and "i < length (items (field (Some cand) ''insurers''))"
  shows "field (Some (items (field (Some out) ''insurers'') ! i)) ''naic_code''
           = field (Some (items (field (Some cand) ''insurers'') ! i)) ''naic_code'' \<and>
         field (Some (items (field (Some cand) ''insurers'') ! i)) ''naic_code'' \<noteq> None \<and>
         (field (Some (items (field (Some cand) ''insurers'') ! i)) ''naic_code'' = Some JNull \<or>
          (\<exists>s. field (Some (items (field (Some cand) ''insurers'') ! i)) ''naic_code'' = Some (JStr s)))"
proof -
  from acord_lists(1,3) [OF assms(1)] obtain outs
    where p: "parse (ZDefault (ZArray insurer_schema) (JArr [])) (field (Some cand) ''insurers'') = Some outs"
      and o: "field (Some out) ''insurers'' = Some outs"
    by auto
  from parse_array_items [OF p] assms(2)
  have "parse insurer_schema (Some (items (field (Some cand) ''insurers'') ! i)) = Some (items (Some outs) ! i)"
    by simp
  then have "parse (ZNullable ZString) (field (Some (items (field (Some cand) ''insurers'') ! i)) ''naic_code'')
      = field (Some (items (Some outs) ! i)) ''naic_code'' \<and> field (Some (items (Some outs) ! i)) ''naic_code'' \<noteq> None"
    unfolding insurer_schema_def by (rule parse_object_field) simp
  then show ?thesis using nullable_kept unfolding o by blast
qed

lemma acord_policy_items:
  assumes "safeParse AcordSchema cand = Some out" and "i < length (items (field (Some cand) ''policies''))"
    and "field (Some (items (field (Some cand) ''policies'') ! i)) ''coverages'' = None"
  shows "field (Some (items (field (Some out) ''policies'') ! i)) ''coverages'' = Some (JArr [])"
proof -
  from acord_lists(2,4) [OF assms(1)] obtain outs
    where p: "parse (ZDefault (ZArray policy_schema) (JArr [])) (field (Some cand) ''policies'') = Some outs"
      and o: "field (Some out) ''policies'' = Some outs"
    by auto
  from parse_array_items [OF p] assms(2)
  have "parse policy_schema (Some (items (field (Some cand) ''policies'') ! i)) = Some (items (Some outs) ! i)"
    by simp
  then have "parse (ZDefault (ZArray coverage_schema) (JArr [])) (field (Some (items (field (Some cand) ''policies'') ! i)) ''coverages'')
      = field (Some (items (Some outs) ! i)) ''coverages''"
    unfolding policy_schema_def by (rule parse_object_field [THEN conjunct1]) simp
  then show ?thesis using assms(3) unfolding o by simp
qed

lemma country_only:
  "map_of kvs ''country'' = Some (JStr ''USA'') \<Longrightarrow>
     (safeParse address_details_schema (JObj kvs) = None)
       = (safeParse (omit ''country'' address_details_schema) (JObj kvs) = None)"
  by (simp add: safeParse_def omit_def address_details_schema_def split: option.splits)

text \<open>
  Claim C2, as stated, fails: a candidate that is complete except that the key
  \<^verbatim>\<open>revision_number\<close> is missing is rejected, while the same candidate with
  \<^verbatim>\<open>revision_number: null\<close> is accepted.
\<close>

theorem missing_nullable_leaf_counterexample:
  "sample_certificate [] ''USA'' \<noteq> JNull \<and>
   at_path (Some (sample_certificate [] ''USA'')) [''certificate_information'', ''revision_number''] = None \<and>
   safeParse AcordSchema (sample_certificate [] ''USA'') = None \<and>
   safeParse AcordSchema (sample_certificate [(''revision_number'', JNull)] ''USA'') = Some sample_validated"
  by (simp add: safeParse_def schema_defs sample_defs at_path_def field_def)

text \<open>
  Claim C2, amended. For every candidate: a missing \<^verbatim>\<open>insurers\<close> or \<^verbatim>\<open>policies\<close>
  list, and a missing \<^verbatim>\<open>coverages\<close> list of a policy, validates exactly as the empty
  list does and is the empty list in the validated result. A nullable leaf
  (\<^verbatim>\<open>z.string().nullable()\<close>) must be present: when its key is missing, validation fails;
  in a validated result it holds what the candidate held, and that is a string or
  \<^verbatim>\<open>null\<close>, so it is \<^verbatim>\<open>null\<close> exactly when the candidate said \<^verbatim>\<open>null\<close>. The same
  holds for the \<^verbatim>\<open>naic_code\<close> of every insurer.
\<close>

theorem missing_fields:
  "(\<forall>k\<in>{''insurers'', ''policies''}. field (Some cand) k = None \<longrightarrow>
      safeParse AcordSchema cand = safeParse AcordSchema (with_field cand k (JArr [])))
   \<and> (field (Some policy) ''coverages'' = None \<longrightarrow>
      safeParse policy_schema policy = safeParse policy_schema (with_field policy ''coverages'' (JArr [])))
   \<and> (\<forall>p. schema_at AcordSchema p = Some (ZNullable ZString) \<and> at_path (Some cand) p = None \<longrightarrow>
          safeParse AcordSchema cand = None)
   \<and> ((\<exists>x\<in>set (items (field (Some cand) ''insurers'')). field (Some x) ''naic_code'' = None) \<longrightarrow>
          safeParse AcordSchema cand = None)
   \<and> (\<forall>out. safeParse AcordSchema cand = Some out \<longrightarrow>
         (\<forall>k\<in>{''insurers'', ''policies''}. field (Some cand) k = None \<longrightarrow> field (Some out) k = Some (JArr []))
       \<and> (\<forall>i<length (items (field (Some cand) ''policies'')).
             field (Some (items (field (Some cand) ''policies'') ! i)) ''coverages'' = None \<longrightarrow>
             field (Some (items (field (Some out) ''policies'') ! i)) ''coverages'' = Some (JArr []))
       \<and> (\<forall>p. schema_at AcordSchema p = Some (ZNullable ZString) \<longrightarrow>
             at_path (Some out) p = at_path (Some cand) p \<and>
             (at_path (Some out) p = Some JNull \<or> (\<exists>s. at_path (Some out) p = Some (JStr s))))
       \<and> (\<forall>i<length (items (field (Some cand) ''insurers'')).
             field (Some (items (field (Some out) ''insurers'') ! i)) ''naic_code''
               = field (Some (items (field (Some cand) ''insurers'') ! i)) ''naic_code'' \<and>
             (field (Some (items (field (Some out) ''insurers'') ! i)) ''naic_code'' = Some JNull \<or>
              (\<exists>s. field (Some (items (field (Some out) ''insurers'') ! i)) ''naic_code'' = Some (JStr s)))))"
proof (intro conjI allI impI ballI)
  fix k assume "k \<in> {''insurers'', ''policies''}" and "field (Some cand) k = None"
  then show "safeParse AcordSchema cand = safeParse AcordSchema (with_field cand k (JArr []))"
    using missing_list_same missing_list_same2 by auto
next
  assume "field (Some policy) ''coverages'' = None"
  then show "safeParse policy_schema policy = safeParse policy_schema (with_field policy ''coverages'' (JArr []))"
    by (rule missing_list_same3)
next
  fix p assume "schema_at AcordSchema p = Some (ZNullable ZString) \<and> at_path (Some cand) p = None"
  then show "safeParse AcordSchema cand = None"
    using acord_nullable_leaves [of cand _ p] by (cases "safeParse AcordSchema cand") auto
next
  assume "\<exists>x\<in>set (items (field (Some cand) ''insurers'')). field (Some x) ''naic_code'' = None"
  then obtain i where "i < length (items (field (Some cand) ''insurers''))"
    and "field (Some (items (field (Some cand) ''insurers'') ! i)) ''naic_code'' = None"
    by (auto simp: in_set_conv_nth)
  then show "safeParse AcordSchema cand = None"
    using acord_insurer_items [of cand _ i] by (cases "safeParse AcordSchema cand") auto
next
  fix out k
  assume ok: "safeParse AcordSchema cand = Some out"
    and "k \<in> {''insurers'', ''policies''}" and "field (Some cand) k = None"
  then show "field (Some out) k = Some (JArr [])"
    using acord_lists(1,2) [OF ok] by auto
next
  fix out i
  assume "safeParse AcordSchema cand = Some out"
    and "i < length (items (field (Some cand) ''policies''))"
    and "field (Some (items (field (Some cand) ''policies'') ! i)) ''coverages'' = None"
  then show "field (Some (items (field (Some out) ''policies'') ! i)) ''coverages'' = Some (JArr [])"
    by (rule acord_policy_items)
next
  fix out p
  assume "safeParse AcordSchema cand = Some out" and "schema_at AcordSchema p = Some (ZNullable ZString)"
  then show "at_path (Some out) p = at_path (Some cand) p"
    using acord_nullable_leaves by blast
next
  fix out p
  assume "safeParse AcordSchema cand = Some out" and "schema_at AcordSchema p = Some (ZNullable ZString)"
  from acord_nullable_leaves [OF this]
  show "at_path (Some out) p = Some JNull \<or> (\<exists>s. at_path (Some out) p = Some (JStr s))"
    by auto
next
  fix out i
  assume "safeParse AcordSchema cand = Some out" and "i < length (items (field (Some cand) ''insurers''))"
  then show "field (Some (items (field (Some out) ''insurers'') ! i)) ''naic_code''
               = field (Some (items (field (Some cand) ''insurers'') ! i)) ''naic_code''"
    using acord_insurer_items by blast
next
  fix out i
  assume "safeParse AcordSchema cand = Some out" and "i < length (items (field (Some cand) ''insurers''))"
  from acord_insurer_items [OF this]
  show "field (Some (items (field (Some out) ''insurers'') ! i)) ''naic_code'' = Some JNull \<or>
        (\<exists>s. field (Some (items (field (Some out) ''insurers'') ! i)) ''naic_code'' = Some (JStr s))"
    by auto
qed

theorem missing_fields_witness:
  "field (Some (sample_certificate [(''revision_number'', JNull)] ''USA'')) ''insurers'' = None \<and>
   safeParse AcordSchema (sample_certificate [(''revision_number'', JNull)] ''USA'') = Some sample_validated \<and>
   field (Some sample_validated) ''insurers'' = Some (JArr []) \<and>
   schema_at AcordSchema [''certificate_information'', ''revision_number''] = Some (ZNullable ZString) \<and>
   at_path (Some (sample_certificate [] ''USA'')) [''certificate_information'', ''revision_number''] = None \<and>
   safeParse AcordSchema (sample_certificate [] ''USA'') = None \<and>
   at_path (Some sample_validated) [''certificate_information'', ''revision_number''] = Some JNull \<and>
   at_path (Some (sample_certificate [(''revision_number'', JNum 7)] ''USA''))
     [''certificate_information'', ''revision_number''] = Some (JNum 7) \<and>
   safeParse AcordSchema (sample_certificate [(''revision_number'', JNum 7)] ''USA'') = None"
proof -
  have a: "field (Some (sample_certificate [(''revision_number'', JNull)] ''USA'')) ''insurers'' = None"
    by (simp add: field_def sample_defs)
  have b: "safeParse AcordSchema (sample_certificate [(''revision_number'', JNull)] ''USA'') = Some sample_validated"
    by (rule sample_ok)
  have c: "schema_at AcordSchema [''certificate_information'', ''revision_number''] = Some (ZNullable ZString)"
    by (simp add: AcordSchema_def certificate_information_schema_def)
  have d: "at_path (Some (sample_certificate [] ''USA'')) [''certificate_information'', ''revision_number''] = None"
    by (simp add: at_path_def field_def sample_defs)
  have e: "at_path (Some (sample_certificate [(''revision_number'', JNull)] ''USA''))
             [''certificate_information'', ''revision_number''] = Some JNull"
    by (simp add: at_path_def field_def sample_defs)
  from missing_fields [where cand = "sample_certificate [(''revision_number'', JNull)] ''USA''" and policy = JNull] a b c e
  have "field (Some sample_validated) ''insurers'' = Some (JArr [])"
    and "at_path (Some sample_validated) [''certificate_information'', ''revision_number''] = Some JNull"
    by auto
  moreover from missing_fields [where cand = "sample_certificate [] ''USA''" and policy = JNull] c d
  have "safeParse AcordSchema (sample_certificate [] ''USA'') = None" by blast
  moreover have f: "at_path (Some (sample_certificate [(''revision_number'', JNum 7)] ''USA''))
     [''certificate_information'', ''revision_number''] = Some (JNum 7)"
    by (simp add: at_path_def field_def sample_defs)
  moreover have "safeParse AcordSchema (sample_certificate [(''revision_number'', JNum 7)] ''USA'') = None"
  proof (cases "safeParse AcordSchema (sample_certificate [(''revision_number'', JNum 7)] ''USA'')")
    case None
    then show ?thesis .
  next
    case (Some out)
    note validated = missing_fields [where cand = "sample_certificate [(''revision_number'', JNum 7)] ''USA''"
        and policy = JNull, THEN conjunct2, THEN conjunct2, THEN conjunct2, THEN conjunct2,
        rule_format, OF Some]
    note leaf = validated [THEN conjunct2, THEN conjunct2, THEN conjunct1, rule_format, OF c]
    from leaf f have False by auto
    then show ?thesis ..
  qed
  ultimately show ?thesis using a b c d by simp
qed

text \<open>
  Claim C9. A candidate whose \<^verbatim>\<open>producer_information.address_details.country\<close> is
  anything but the string \<^verbatim>\<open>USA\<close> (or is missing) fails validation. The schema at that
  place is the literal \<^verbatim>\<open>USA\<close>, which accepts \<^verbatim>\<open>USA\<close>; and an address whose country
  is \<^verbatim>\<open>USA\<close> fails exactly when it fails the schema without the country field.
\<close>

theorem country_literal:
  "(at_path (Some cand) [''producer_information'', ''address_details'', ''country''] \<noteq> Some (JStr ''USA'')
      \<longrightarrow> safeParse AcordSchema cand = None)
   \<and> schema_at AcordSchema [''producer_information'', ''address_details'', ''country''] = Some (ZLiteral ''USA'')
   \<and> parse (ZLiteral ''USA'') (Some (JStr ''USA'')) = Some (JStr ''USA'')
   \<and> (field (Some address) ''country'' = Some (JStr ''USA'') \<longrightarrow>
        (safeParse address_details_schema address = None)
          = (safeParse (omit ''country'' address_details_schema) address = None))"
proof (intro conjI impI)
  assume "at_path (Some cand) [''producer_information'', ''address_details'', ''country''] \<noteq> Some (JStr ''USA'')"
  then show "safeParse AcordSchema cand = None"
    using acord_country [of cand] by (cases "safeParse AcordSchema cand") auto
next
  show "schema_at AcordSchema [''producer_information'', ''address_details'', ''country''] = Some (ZLiteral ''USA'')"
    by (simp add: AcordSchema_def producer_information_schema_def address_details_schema_def)
next
  show "parse (ZLiteral ''USA'') (Some (JStr ''USA'')) = Some (JStr ''USA'')" by simp
next
  assume "field (Some address) ''country'' = Some (JStr ''USA'')"
  then show "(safeParse address_details_schema address = None)
          = (safeParse (omit ''country'' address_details_schema) address = None)"
    using country_only by (cases address) (auto simp: field_def)
qed

theorem country_literal_witness:
  "at_path (Some (sample_certificate [(''revision_number'', JNull)] ''Canada''))
      [''producer_information'', ''address_details'', ''country''] \<noteq> Some (JStr ''USA'') \<and>
   safeParse AcordSchema (sample_certificate [(''revision_number'', JNull)] ''Canada'') = None \<and>
   safeParse AcordSchema (sample_certificate [(''revision_number'', JNull)] ''USA'') \<noteq> None"
proof -
  have "at_path (Some (sample_certificate [(''revision_number'', JNull)] ''Canada''))
      [''producer_information'', ''address_details'', ''country''] \<noteq> Some (JStr ''USA'')"
    by (simp add: at_path_def field_def sample_defs)
  with country_literal [of "sample_certificate [(''revision_number'', JNull)] ''Canada''"]
  show ?thesis by (simp add: sample_ok)
qed

section \<open>Properties of truncation, the retry loop and the endpoint\<close>

lemma retry_loop_failure:
  assumes "attempt < MAX_RETRIES" and "generateObject (mdl 0) (ZNullable AcordSchema) b = Inl e"
  shows "retry_loop mdl b attempt le tr =
         retry_loop (\<lambda>k. mdl (Suc k)) b (attempt + 1) (Some e)
           (tr @ [ModelCall b] @ (if attempt + 1 < MAX_RETRIES then [Wait (2 ^ (attempt + 1) * 1000)] else []))"
  using assms by (subst retry_loop.simps) (simp add: Let_def)

lemma retry_loop_success:
  assumes "attempt < MAX_RETRIES" and "generateObject (mdl 0) (ZNullable AcordSchema) b = Inr v"
  shows "retry_loop mdl b attempt le tr = (Inr v, tr @ [ModelCall b])"
  using assms by (subst retry_loop.simps) simp

lemma retry_loop_exhausted:
  assumes "\<not> attempt < MAX_RETRIES"
  shows "retry_loop mdl b attempt le tr =
         (Inl (new_Error (''Failed to get response from Gemini via AI SDK after ''
                @ string_of_nat MAX_RETRIES @ '' attempts: '' @ error_text le)), tr)"
  using assms by (subst retry_loop.simps) simp

lemma string_of_MAX_RETRIES: "string_of_nat MAX_RETRIES = ''3''"
  by (simp add: string_of_nat.simps digit_char_def MAX_RETRIES_def)

lemma attempt_fails_generateObject:
  "attempt_fails (respond b) \<Longrightarrow> \<exists>e. generateObject respond (ZNullable AcordSchema) b = Inl e"
  by (auto simp: attempt_fails_def generateObject_def split: sum.splits option.splits)

lemma retry_loop_three_failures:
  assumes "generateObject (mdl 0) (ZNullable AcordSchema) b = Inl e0"
    and "generateObject (mdl (Suc 0)) (ZNullable AcordSchema) b = Inl e1"
    and "generateObject (mdl (Suc (Suc 0))) (ZNullable AcordSchema) b = Inl e2"
  shows "retry_loop mdl b 0 None [] =
     (Inl (new_Error (''Failed to get response from Gemini via AI SDK after 3 attempts: '' @ error_text (Some e2))),
      [ModelCall b, Wait 2000, ModelCall b, Wait 4000, ModelCall b])"
proof -
  have three: "MAX_RETRIES = Suc (Suc (Suc 0))" by (simp add: MAX_RETRIES_def)
  have "retry_loop mdl b 0 None [] =
        retry_loop (\<lambda>k. mdl (Suc k)) b (Suc 0) (Some e0) [ModelCall b, Wait 2000]"
    using retry_loop_failure [where mdl = mdl, OF _ assms(1), of 0 None "[]"] by (simp add: three)
  also have "\<dots> = retry_loop (\<lambda>k. mdl (Suc (Suc k))) b (Suc (Suc 0)) (Some e1)
                    [ModelCall b, Wait 2000, ModelCall b, Wait 4000]"
    using retry_loop_failure [where mdl = "\<lambda>k. mdl (Suc k)", OF _ assms(2), of "Suc 0" "Some e0" "[ModelCall b, Wait 2000]"]
    by (simp add: three)
  also have "\<dots> = retry_loop (\<lambda>k. mdl (Suc (Suc (Suc k)))) b (Suc (Suc (Suc 0))) (Some e2)
                    [ModelCall b, Wait 2000, ModelCall b, Wait 4000, ModelCall b]"
    using retry_loop_failure [where mdl = "\<lambda>k. mdl (Suc (Suc k))", OF _ assms(3), of "Suc (Suc 0)" "Some e1"
            "[ModelCall b, Wait 2000, ModelCall b, Wait 4000]"]
    by (simp add: three)
  also have "\<dots> = (Inl (new_Error (''Failed to get response from Gemini via AI SDK after 3 attempts: '' @ error_text (Some e2))),
      [ModelCall b, Wait 2000, ModelCall b, Wait 4000, ModelCall b])"
    using retry_loop_exhausted [of "Suc (Suc (Suc 0))"] by (simp add: three [symmetric] string_of_MAX_RETRIES)
  finally show ?thesis .
qed

lemma retry_loop_succeeds_at:
  "attempt + k < MAX_RETRIES \<Longrightarrow>
   (\<forall>j<k. attempt_fails (mdl j b)) \<Longrightarrow>
   generateObject (mdl k) (ZNullable AcordSchema) b = Inr v \<Longrightarrow>
   \<exists>tr'. retry_loop mdl b attempt le tr = (Inr v, tr @ tr' @ [ModelCall b]) \<and> model_calls tr' = k"
proof (induction k arbitrary: mdl attempt le tr)
  case 0
  then show ?case using retry_loop_success [of attempt mdl b v le tr]
    by (auto simp: model_calls_def)
next
  case (Suc k)
  from Suc.prems(2) have "attempt_fails (mdl 0 b)" by simp
  then obtain e where e: "generateObject (mdl 0) (ZNullable AcordSchema) b = Inl e"
    using attempt_fails_generateObject [of "mdl 0" b] by blast
  let ?waits = "if attempt + 1 < MAX_RETRIES then [Wait (2 ^ (attempt + 1) * 1000)] else []"
  have step: "retry_loop mdl b attempt le tr =
      retry_loop (\<lambda>k. mdl (Suc k)) b (attempt + 1) (Some e) (tr @ [ModelCall b] @ ?waits)"
    using retry_loop_failure [where mdl = mdl, OF _ e] Suc.prems(1) by simp
  have "\<exists>tr'. retry_loop (\<lambda>k. mdl (Suc k)) b (attempt + 1) (Some e) (tr @ [ModelCall b] @ ?waits)
          = (Inr v, (tr @ [ModelCall b] @ ?waits) @ tr' @ [ModelCall b]) \<and> model_calls tr' = k"
    using Suc.prems by (intro Suc.IH) auto
  then obtain tr' where r: "retry_loop (\<lambda>k. mdl (Suc k)) b (attempt + 1) (Some e) (tr @ [ModelCall b] @ ?waits)
          = (Inr v, (tr @ [ModelCall b] @ ?waits) @ tr' @ [ModelCall b])" and c: "model_calls tr' = k"
    by blast
  have "retry_loop mdl b attempt le tr = (Inr v, tr @ ([ModelCall b] @ ?waits @ tr') @ [ModelCall b])"
    using step r by simp
  moreover have "model_calls ([ModelCall b] @ ?waits @ tr') = Suc k"
    using c by (simp add: model_calls_def)
  ultimately show ?case by blast
qed

lemma normalizedMessage_generic: "\<not> includes_str (normalizedMessage e) ''GEMINI_API_KEY''"
  by (simp add: normalizedMessage_def Let_def)

lemma config_error_message:
  "normalizedMessage (new_Error ''GEMINI_API_KEY is not set in environment variables'') = ''API key configuration error''"
  by (simp add: normalizedMessage_def new_Error_def message_of_def)

lemma truncate_trace: "snd (truncatePDFToFivePagesBuffer lib b) = [PdfLoad b]"
  by (simp add: truncatePDFToFivePagesBuffer_def Let_def split: sum.splits)

lemma first_five_nth:
  assumes "5 < length pages"
  shows "first_five pages = [pages ! 0, pages ! 1, pages ! 2, pages ! 3, pages ! 4]"
  using assms by (auto simp: first_five_def copyPages_def addPages_def Let_def)

lemma take_five_nth:
  assumes "5 < length pages"
  shows "take 5 pages = [pages ! 0, pages ! 1, pages ! 2, pages ! 3, pages ! 4]"
proof (rule nth_equalityI)
  show "length (take 5 pages) = length [pages ! 0, pages ! 1, pages ! 2, pages ! 3, pages ! 4]"
    using assms by simp
next
  fix i assume "i < length (take 5 pages)"
  then have "i < 5" by simp
  then consider "i = 0" | "i = 1" | "i = 2" | "i = 3" | "i = 4" by linarith
  then show "take 5 pages ! i = [pages ! 0, pages ! 1, pages ! 2, pages ! 3, pages ! 4] ! i"
    by cases simp_all
qed

text \<open>
  Claim C3. When the input parses with at most 5 pages, the server-side truncation
  returns the input bytes themselves, and the client sends the file it was given.
\<close>

theorem short_document_unchanged:
  assumes "load lib inputBytes = Inr pages" and "length pages \<le> 5"
  shows "truncatePDFToFivePagesBuffer lib inputBytes = (Inr inputBytes, [PdfLoad inputBytes])
       \<and> (\<forall>f. fbytes f = inputBytes \<longrightarrow>
             client_truncate lib f = (f, []) \<and>
             snd (handleSubmit lib fetch (Some f)) = [Fetch [(''file'', FileEntry f)]])"
proof -
  have "truncatePDFToFivePagesBuffer lib inputBytes = (Inr inputBytes, [PdfLoad inputBytes])"
    using assms by (simp add: truncatePDFToFivePagesBuffer_def)
  moreover have c: "client_truncate lib f = (f, [])" if "fbytes f = inputBytes" for f
    using assms that by (simp add: client_truncate_def)
  moreover have "snd (handleSubmit lib fetch (Some f)) = [Fetch [(''file'', FileEntry f)]]"
    if "fbytes f = inputBytes" for f
    unfolding handleSubmit_def using c [OF that]
    by (simp add: Let_def split: sum.splits option.splits)
  ultimately show ?thesis by blast
qed

text \<open>
  Claim C4. When the input parses with more than 5 pages, the result of the
  truncation is the library's serialisation of the pages 0 to 4 of the input, in that
  order, which are its first five pages.
\<close>

theorem long_document_first_five:
  assumes "load lib inputBytes = Inr pages" and "5 < length pages"
  shows "truncatePDFToFivePagesBuffer lib inputBytes =
           (save lib [pages ! 0, pages ! 1, pages ! 2, pages ! 3, pages ! 4], [PdfLoad inputBytes])
       \<and> [pages ! 0, pages ! 1, pages ! 2, pages ! 3, pages ! 4] = take 5 pages
       \<and> (\<forall>out. save lib (take 5 pages) = Inr out \<longrightarrow>
             fst (truncatePDFToFivePagesBuffer lib inputBytes) = Inr out)"
proof -
  have t: "truncatePDFToFivePagesBuffer lib inputBytes = (save lib (first_five pages), [PdfLoad inputBytes])"
    using assms by (simp add: truncatePDFToFivePagesBuffer_def)
  show ?thesis
    unfolding t first_five_nth [OF assms(2)] take_five_nth [OF assms(2)] by simp
qed

text \<open>
  Claim C1. When each of the three attempts fails (the transport or the provider
  throws, or the answer does not match the schema), the loop sends exactly
  \<open>MAX_RETRIES = 3\<close> requests, waits 2000 ms before the second and 4000 ms before the
  third, and then throws an error whose message names the 3 attempts and ends with the
  text of the last error. With a credential set, \<open>callGeminiUsingAiSdk\<close> is this loop.
\<close>

theorem retries_exhausted:
  assumes "\<forall>k<MAX_RETRIES. attempt_fails (mdl k pdfBytes)"
  shows "\<exists>e. generateObject (mdl 2) (ZNullable AcordSchema) pdfBytes = Inl e \<and>
           retry_loop mdl pdfBytes 0 None [] =
             (Inl (new_Error (''Failed to get response from Gemini via AI SDK after 3 attempts: ''
                     @ error_text (Some e))),
              [ModelCall pdfBytes, Wait 2000, ModelCall pdfBytes, Wait 4000, ModelCall pdfBytes]) \<and>
           model_calls (snd (retry_loop mdl pdfBytes 0 None [])) = MAX_RETRIES \<and>
           (\<not> credential_unset key \<longrightarrow>
              callGeminiUsingAiSdk key mdl pdfBytes = retry_loop mdl pdfBytes 0 None [])"
proof -
  from assms have "attempt_fails (mdl 0 pdfBytes)" "attempt_fails (mdl (Suc 0) pdfBytes)"
    "attempt_fails (mdl (Suc (Suc 0)) pdfBytes)"
    by (simp_all add: MAX_RETRIES_def)
  then obtain e0 e1 e2 where
    e: "generateObject (mdl 0) (ZNullable AcordSchema) pdfBytes = Inl e0"
       "generateObject (mdl (Suc 0)) (ZNullable AcordSchema) pdfBytes = Inl e1"
       "generateObject (mdl (Suc (Suc 0))) (ZNullable AcordSchema) pdfBytes = Inl e2"
    using attempt_fails_generateObject [of "mdl 0" pdfBytes]
      attempt_fails_generateObject [of "mdl (Suc 0)" pdfBytes]
      attempt_fails_generateObject [of "mdl (Suc (Suc 0))" pdfBytes]
    by blast
  have r: "retry_loop mdl pdfBytes 0 None [] =
             (Inl (new_Error (''Failed to get response from Gemini via AI SDK after 3 attempts: ''
                     @ error_text (Some e2))),
              [ModelCall pdfBytes, Wait 2000, ModelCall pdfBytes, Wait 4000, ModelCall pdfBytes])"
    by (rule retry_loop_three_failures [OF e])
  have last: "generateObject (mdl 2) (ZNullable AcordSchema) pdfBytes = Inl e2"
    using e(3) by (simp only: numeral_2_eq_2)
  have calls: "model_calls (snd (retry_loop mdl pdfBytes 0 None [])) = MAX_RETRIES"
    unfolding r by (simp add: model_calls_def MAX_RETRIES_def)
  have "\<not> credential_unset key \<longrightarrow>
          callGeminiUsingAiSdk key mdl pdfBytes = retry_loop mdl pdfBytes 0 None []"
    by (simp add: callGeminiUsingAiSdk_def)
  with r last calls show ?thesis by blast
qed

lemma callGemini_unset:
  "credential_unset key \<Longrightarrow>
     callGeminiUsingAiSdk key mdl b =
       (Inl (new_Error ''GEMINI_API_KEY is not set in environment variables''), [])"
  by (simp add: callGeminiUsingAiSdk_def)

lemma on_catch_shape: "on_catch e = \<lparr>status = 400, body = [(''error'', JStr (normalizedMessage e))]\<rparr>"
  by (simp add: on_catch_def NextResponse_json_def)

lemma POST_thrown: "POST env (Inl e) = (on_catch e, [])"
  by (simp add: POST_def)

lemma POST_no_file:
  "\<forall>f. map_of fd ''file'' \<noteq> Some (FileEntry f) \<Longrightarrow>
     POST env (Inr fd) = (\<lparr>status = 400, body = [(''error'', JStr ''No file uploaded'')]\<rparr>, [])"
  by (auto simp: POST_def NextResponse_json_def split: option.splits form_entry.splits)

lemma POST_not_pdf:
  "map_of fd ''file'' = Some (FileEntry f) \<Longrightarrow> ftype f \<noteq> ''application/pdf'' \<Longrightarrow>
     POST env (Inr fd) = (\<lparr>status = 400, body = [(''error'', JStr ''Uploaded file must be a PDF'')]\<rparr>, [])"
  by (simp add: POST_def NextResponse_json_def)

lemma POST_too_large:
  "map_of fd ''file'' = Some (FileEntry f) \<Longrightarrow> ftype f = ''application/pdf'' \<Longrightarrow> maxBytes < fsize f \<Longrightarrow>
     POST env (Inr fd) = (\<lparr>status = 400, body = [(''error'', JStr ''File too large. Max 4MB.'')]\<rparr>, [])"
  by (simp add: POST_def NextResponse_json_def)

lemma POST_accepted:
  assumes "map_of fd ''file'' = Some (FileEntry f)" and "ftype f = ''application/pdf''"
    and "fsize f \<le> maxBytes"
  shows "POST env (Inr fd) =
     (case fst (truncatePDFToFivePagesBuffer (pdf env) (fbytes f)) of
        Inl e \<Rightarrow> (on_catch e, [PdfLoad (fbytes f)])
      | Inr pb \<Rightarrow>
          (case callGeminiUsingAiSdk (GEMINI_API_KEY env) (model env) pb of
             (Inl e, t2) \<Rightarrow> (on_catch e, PdfLoad (fbytes f) # t2)
           | (Inr v, t2) \<Rightarrow> (\<lparr>status = 200, body = [(''data'', v)]\<rparr>, PdfLoad (fbytes f) # t2)))"
proof -
  obtain r where t: "truncatePDFToFivePagesBuffer (pdf env) (fbytes f) = (r, [PdfLoad (fbytes f)])"
    using truncate_trace [of "pdf env" "fbytes f"]
    by (cases "truncatePDFToFivePagesBuffer (pdf env) (fbytes f)") simp
  show ?thesis
    using assms by (simp add: POST_def t NextResponse_json_def Let_def split: sum.splits prod.splits)
qed

lemma POST_cases:
  obtains (thrown) e where "req = Inl e"
  | (no_file) fd where "req = Inr fd" and "\<forall>f. map_of fd ''file'' \<noteq> Some (FileEntry f)"
  | (not_pdf) fd f where "req = Inr fd" and "map_of fd ''file'' = Some (FileEntry f)"
      and "ftype f \<noteq> ''application/pdf''"
  | (too_large) fd f where "req = Inr fd" and "map_of fd ''file'' = Some (FileEntry f)"
      and "ftype f = ''application/pdf''" and "maxBytes < fsize f"
  | (accepted) fd f where "req = Inr fd" and "map_of fd ''file'' = Some (FileEntry f)"
      and "ftype f = ''application/pdf''" and "fsize f \<le> maxBytes"
proof (cases req)
  case (Inl e)
  then show ?thesis by (rule thrown)
next
  case (Inr fd)
  show ?thesis
  proof (cases "\<exists>f. map_of fd ''file'' = Some (FileEntry f)")
    case False
    with Inr show ?thesis by (intro no_file) auto
  next
    case True
    then obtain f where "map_of fd ''file'' = Some (FileEntry f)" by blast
    with Inr show ?thesis
      using not_pdf too_large accepted by (cases "ftype f = ''application/pdf''"; cases "maxBytes < fsize f") auto
  qed
qed

lemma callGemini_all_fail:
  assumes "\<forall>k<MAX_RETRIES. attempt_fails (mdl k b)"
  shows "\<exists>e tr. callGeminiUsingAiSdk key mdl b = (Inl e, tr)"
proof (cases "credential_unset key")
  case True
  then show ?thesis by (simp add: callGemini_unset)
next
  case False
  from assms have "attempt_fails (mdl 0 b)" "attempt_fails (mdl (Suc 0) b)"
    "attempt_fails (mdl (Suc (Suc 0)) b)"
    by (simp_all add: MAX_RETRIES_def)
  then obtain e0 e1 e2 where
    e: "generateObject (mdl 0) (ZNullable AcordSchema) b = Inl e0"
       "generateObject (mdl (Suc 0)) (ZNullable AcordSchema) b = Inl e1"
       "generateObject (mdl (Suc (Suc 0))) (ZNullable AcordSchema) b = Inl e2"
    using attempt_fails_generateObject [of "mdl 0" b]
      attempt_fails_generateObject [of "mdl (Suc 0)" b]
      attempt_fails_generateObject [of "mdl (Suc (Suc 0))" b]
    by blast
  show ?thesis
    using False retry_loop_three_failures [OF e] by (simp add: callGeminiUsingAiSdk_def)
qed

text \<open>
  Claim C8. An upload whose file is larger than 4 * 1024 * 1024 bytes is answered with
  status 400 and an error message that says why (the file is too large or, when its
  media type is not PDF either, that it must be a PDF), and nothing has been done by
  then: the trace is empty, so the PDF was not parsed and the external model was not
  called.
\<close>

theorem oversized_upload_rejected:
  assumes "map_of fd ''file'' = Some (FileEntry f)" and "fsize f > 4 * 1024 * 1024"
  shows "POST env (Inr fd) =
           (\<lparr>status = 400,
              body = [(''error'', JStr (if ftype f = ''application/pdf'' then ''File too large. Max 4MB.''
                                          else ''Uploaded file must be a PDF''))]\<rparr>,
            [])"
proof (cases "ftype f = ''application/pdf''")
  case True
  with assms show ?thesis by (simp add: POST_too_large maxBytes_def)
next
  case False
  with assms show ?thesis by (simp add: POST_not_pdf)
qed

lemma model_calls_simps:
  "model_calls [] = 0"
  "model_calls (PdfLoad b # tr) = model_calls tr"
  "model_calls (Wait n # tr) = model_calls tr"
  "model_calls (ModelCall b # tr) = Suc (model_calls tr)"
  by (simp_all add: model_calls_def)

lemma generateObject_null:
  "respond b = Inr JNull \<Longrightarrow> generateObject respond (ZNullable s) b = Inr JNull"
  by (simp add: generateObject_def safeParse_def)

lemma callGemini_null:
  assumes "k < MAX_RETRIES" and "\<forall>j<k. attempt_fails (mdl j pb)" and "mdl k pb = Inr JNull"
    and "\<not> credential_unset key"
  shows "\<exists>tr. callGeminiUsingAiSdk key mdl pb = (Inr JNull, tr @ [ModelCall pb]) \<and> model_calls tr = k"
proof -
  have g: "generateObject (mdl k) (ZNullable AcordSchema) pb = Inr JNull"
    using assms(3) by (rule generateObject_null)
  from retry_loop_succeeds_at [where attempt = 0 and tr = "[]" and le = None, OF _ assms(2) g] assms(1,4)
  show ?thesis by (simp add: callGeminiUsingAiSdk_def)
qed

text \<open>
  Claim C5. The nullable schema accepts a top-level \<^verbatim>\<open>null\<close> whatever the inner schema
  is. When the external model answers \<^verbatim>\<open>null\<close> to the request number \<open>k\<close> (the earlier
  ones having failed), the caller returns \<^verbatim>\<open>null\<close> and that request is the last event:
  there is no further request and no wait. The endpoint then answers with status 200
  and the body \<^verbatim>\<open>{ data: null }\<close>.
\<close>

theorem null_answer_is_success:
  "safeParse (ZNullable s) JNull = Some JNull
   \<and> (k < MAX_RETRIES \<and> (\<forall>j<k. attempt_fails (mdl j pb)) \<and> mdl k pb = Inr JNull
        \<and> \<not> credential_unset key \<longrightarrow>
        (\<exists>tr. callGeminiUsingAiSdk key mdl pb = (Inr JNull, tr @ [ModelCall pb]) \<and> model_calls tr = k))
   \<and> (map_of fd ''file'' = Some (FileEntry f) \<and> ftype f = ''application/pdf'' \<and> fsize f \<le> maxBytes
        \<and> fst (truncatePDFToFivePagesBuffer (pdf env) (fbytes f)) = Inr pb
        \<and> \<not> credential_unset (GEMINI_API_KEY env)
        \<and> k < MAX_RETRIES \<and> (\<forall>j<k. attempt_fails (model env j pb)) \<and> model env k pb = Inr JNull \<longrightarrow>
        fst (POST env (Inr fd)) = \<lparr>status = 200, body = [(''data'', JNull)]\<rparr>)"
proof (intro conjI impI)
  show "safeParse (ZNullable s) JNull = Some JNull" by (simp add: safeParse_def)
next
  assume "k < MAX_RETRIES \<and> (\<forall>j<k. attempt_fails (mdl j pb)) \<and> mdl k pb = Inr JNull
        \<and> \<not> credential_unset key"
  then show "\<exists>tr. callGeminiUsingAiSdk key mdl pb = (Inr JNull, tr @ [ModelCall pb]) \<and> model_calls tr = k"
    using callGemini_null by blast
next
  assume a: "map_of fd ''file'' = Some (FileEntry f) \<and> ftype f = ''application/pdf'' \<and> fsize f \<le> maxBytes
        \<and> fst (truncatePDFToFivePagesBuffer (pdf env) (fbytes f)) = Inr pb
        \<and> \<not> credential_unset (GEMINI_API_KEY env)
        \<and> k < MAX_RETRIES \<and> (\<forall>j<k. attempt_fails (model env j pb)) \<and> model env k pb = Inr JNull"
  then obtain tr where "callGeminiUsingAiSdk (GEMINI_API_KEY env) (model env) pb = (Inr JNull, tr @ [ModelCall pb])"
    using callGemini_null [of k "model env" pb "GEMINI_API_KEY env"] by blast
  with a show "fst (POST env (Inr fd)) = \<lparr>status = 200, body = [(''data'', JNull)]\<rparr>"
    by (simp add: POST_accepted)
qed

lemma POST_unset_credential:
  assumes "credential_unset (GEMINI_API_KEY env)"
  shows "\<exists>m tr. POST env req = (\<lparr>status = 400, body = [(''error'', JStr m)]\<rparr>, tr)
           \<and> \<not> includes_str m ''GEMINI_API_KEY'' \<and> model_calls tr = 0"
proof (cases req rule: POST_cases)
  case (thrown e)
  then show ?thesis
    by (simp add: POST_thrown on_catch_shape normalizedMessage_generic model_calls_simps)
next
  case (no_file fd)
  then show ?thesis by (simp add: POST_no_file model_calls_simps)
next
  case (not_pdf fd f)
  then show ?thesis by (simp add: POST_not_pdf model_calls_simps)
next
  case (too_large fd f)
  then show ?thesis by (simp add: POST_too_large model_calls_simps)
next
  case (accepted fd f)
  then show ?thesis
    by (simp add: POST_accepted callGemini_unset [OF assms] on_catch_shape normalizedMessage_generic
          model_calls_simps split: sum.splits)
qed

text \<open>
  Claim C6. With the credential unset (absent, empty or blank) the caller throws its
  configuration error at once, with an empty trace. The endpoint turns that error into
  status 400 with the message \<^verbatim>\<open>API key configuration error\<close>, which does not contain
  the name of the variable; and whatever the request is, the answer has status 400, no
  request has gone to the external model, and the error message does not contain the
  name of the variable.
\<close>

theorem missing_credential:
  assumes "credential_unset key"
  shows "callGeminiUsingAiSdk key mdl pdfBytes =
           (Inl (new_Error ''GEMINI_API_KEY is not set in environment variables''), [])
       \<and> on_catch (new_Error ''GEMINI_API_KEY is not set in environment variables'') =
           \<lparr>status = 400, body = [(''error'', JStr ''API key configuration error'')]\<rparr>
       \<and> \<not> includes_str ''API key configuration error'' ''GEMINI_API_KEY''
       \<and> (GEMINI_API_KEY env = key \<longrightarrow>
            status (fst (POST env req)) = 400 \<and> model_calls (snd (POST env req)) = 0 \<and>
            (\<exists>m. body (fst (POST env req)) = [(''error'', JStr m)] \<and> \<not> includes_str m ''GEMINI_API_KEY'') \<and>
            (\<forall>fd f pb. req = Inr fd \<and> map_of fd ''file'' = Some (FileEntry f) \<and>
                 ftype f = ''application/pdf'' \<and> fsize f \<le> maxBytes \<and>
                 fst (truncatePDFToFivePagesBuffer (pdf env) (fbytes f)) = Inr pb \<longrightarrow>
               POST env req =
                 (\<lparr>status = 400, body = [(''error'', JStr ''API key configuration error'')]\<rparr>,
                  [PdfLoad (fbytes f)])))"
proof (intro conjI impI allI)
  show "callGeminiUsingAiSdk key mdl pdfBytes =
           (Inl (new_Error ''GEMINI_API_KEY is not set in environment variables''), [])"
    using assms by (rule callGemini_unset)
next
  show "on_catch (new_Error ''GEMINI_API_KEY is not set in environment variables'') =
           \<lparr>status = 400, body = [(''error'', JStr ''API key configuration error'')]\<rparr>"
    by (simp add: on_catch_shape config_error_message)
next
  show "\<not> includes_str ''API key configuration error'' ''GEMINI_API_KEY''" by simp
next
  assume k: "GEMINI_API_KEY env = key"
  from POST_unset_credential [of env req] assms k obtain m tr
    where p: "POST env req = (\<lparr>status = 400, body = [(''error'', JStr m)]\<rparr>, tr)"
      and g: "\<not> includes_str m ''GEMINI_API_KEY''" and c: "model_calls tr = 0"
    by blast
  show "status (fst (POST env req)) = 400" by (simp add: p)
  show "model_calls (snd (POST env req)) = 0" by (simp add: p c)
  show "\<exists>m. body (fst (POST env req)) = [(''error'', JStr m)] \<and> \<not> includes_str m ''GEMINI_API_KEY''"
    using g by (simp add: p)
  fix fd f pb
  assume "req = Inr fd \<and> map_of fd ''file'' = Some (FileEntry f) \<and>
          ftype f = ''application/pdf'' \<and> fsize f \<le> maxBytes \<and>
          fst (truncatePDFToFivePagesBuffer (pdf env) (fbytes f)) = Inr pb"
  then show "POST env req =
                 (\<lparr>status = 400, body = [(''error'', JStr ''API key configuration error'')]\<rparr>,
                  [PdfLoad (fbytes f)])"
    using assms k by (simp add: POST_accepted callGemini_unset on_catch_shape config_error_message)
qed

lemma truncate_load_fails:
  "load lib b = Inl e \<Longrightarrow> fst (truncatePDFToFivePagesBuffer lib b) = Inl e"
  by (simp add: truncatePDFToFivePagesBuffer_def)

text \<open>
  Claim C10. Every answer of the handler is either status 200 with exactly a
  \<^verbatim>\<open>data\<close> field or status 400 with exactly an \<^verbatim>\<open>error\<close> field holding a string; the
  status is never 5xx. The status is 200 exactly when every step succeeded; no file,
  a media type other than PDF, a file over the limit, a PDF that does not parse, an
  unset credential and three failed attempts each give status 400.
\<close>

theorem response_shape:
  assumes "POST env req = (r, tr)"
  shows "(status r = 200 \<and> (\<exists>v. body r = [(''data'', v)]) \<or>
          status r = 400 \<and> (\<exists>m. body r = [(''error'', JStr m)]))
       \<and> (map_of (body r) ''data'' \<noteq> None) \<noteq> (map_of (body r) ''error'' \<noteq> None)
       \<and> status r < 500
       \<and> (status r = 200) =
           (\<exists>fd f pb v t2. req = Inr fd \<and> map_of fd ''file'' = Some (FileEntry f) \<and>
              ftype f = ''application/pdf'' \<and> fsize f \<le> maxBytes \<and>
              fst (truncatePDFToFivePagesBuffer (pdf env) (fbytes f)) = Inr pb \<and>
              callGeminiUsingAiSdk (GEMINI_API_KEY env) (model env) pb = (Inr v, t2))
       \<and> (\<forall>fd. req = Inr fd \<and> (\<forall>f. map_of fd ''file'' \<noteq> Some (FileEntry f)) \<longrightarrow>
              r = \<lparr>status = 400, body = [(''error'', JStr ''No file uploaded'')]\<rparr>)
       \<and> (\<forall>fd f. req = Inr fd \<and> map_of fd ''file'' = Some (FileEntry f) \<and>
              ftype f \<noteq> ''application/pdf'' \<longrightarrow>
              r = \<lparr>status = 400, body = [(''error'', JStr ''Uploaded file must be a PDF'')]\<rparr>)
       \<and> (\<forall>fd f. req = Inr fd \<and> map_of fd ''file'' = Some (FileEntry f) \<and>
              ftype f = ''application/pdf'' \<and> maxBytes < fsize f \<longrightarrow>
              r = \<lparr>status = 400, body = [(''error'', JStr ''File too large. Max 4MB.'')]\<rparr>)
       \<and> (\<forall>fd f e. req = Inr fd \<and> map_of fd ''file'' = Some (FileEntry f) \<and>
              ftype f = ''application/pdf'' \<and> fsize f \<le> maxBytes \<and>
              load (pdf env) (fbytes f) = Inl e \<longrightarrow>
              r = \<lparr>status = 400, body = [(''error'', JStr (normalizedMessage e))]\<rparr>)
       \<and> (credential_unset (GEMINI_API_KEY env) \<longrightarrow> status r = 400)
       \<and> ((\<forall>b. \<forall>k<MAX_RETRIES. attempt_fails (model env k b)) \<longrightarrow> status r = 400)"
proof (cases req rule: POST_cases)
  case (thrown e)
  with assms have "r = \<lparr>status = 400, body = [(''error'', JStr (normalizedMessage e))]\<rparr>"
    by (simp add: POST_thrown on_catch_shape)
  with thrown show ?thesis by simp
next
  case (no_file fd)
  with assms have "r = \<lparr>status = 400, body = [(''error'', JStr ''No file uploaded'')]\<rparr>"
    by (simp add: POST_no_file)
  with no_file show ?thesis by simp
next
  case (not_pdf fd f)
  with assms have "r = \<lparr>status = 400, body = [(''error'', JStr ''Uploaded file must be a PDF'')]\<rparr>"
    by (simp add: POST_not_pdf)
  with not_pdf show ?thesis by simp
next
  case (too_large fd f)
  with assms have "r = \<lparr>status = 400, body = [(''error'', JStr ''File too large. Max 4MB.'')]\<rparr>"
    by (simp add: POST_too_large)
  with too_large show ?thesis by simp
next
  case (accepted fd f)
  note post = POST_accepted [OF accepted(2,3,4), of env]
  show ?thesis
  proof (cases "fst (truncatePDFToFivePagesBuffer (pdf env) (fbytes f))")
    case (Inl e)
    with assms accepted post
    have r: "r = \<lparr>status = 400, body = [(''error'', JStr (normalizedMessage e))]\<rparr>"
      by (simp add: on_catch_shape)
    have "load (pdf env) (fbytes f) = Inl e' \<longrightarrow> e' = e" for e'
      using Inl truncate_load_fails [of "pdf env" "fbytes f" e'] by auto
    with r accepted Inl show ?thesis by simp
  next
    case (Inr pb)
    have loaded: "load (pdf env) (fbytes f) \<noteq> Inl e'" for e'
      using Inr truncate_load_fails [of "pdf env" "fbytes f" e'] by auto
    obtain res t2 where call: "callGeminiUsingAiSdk (GEMINI_API_KEY env) (model env) pb = (res, t2)"
      by (cases "callGeminiUsingAiSdk (GEMINI_API_KEY env) (model env) pb")
    show ?thesis
    proof (cases res)
      case (Inl e)
      with assms accepted post Inr call
      have r: "r = \<lparr>status = 400, body = [(''error'', JStr (normalizedMessage e))]\<rparr>"
        by (simp add: on_catch_shape)
      with accepted Inr call Inl loaded show ?thesis by simp
    next
      case (Inr v)
      with assms accepted post \<open>fst (truncatePDFToFivePagesBuffer (pdf env) (fbytes f)) = Inr pb\<close> call
      have r: "r = \<lparr>status = 200, body = [(''data'', v)]\<rparr>"
        by simp
      have set: "\<not> credential_unset (GEMINI_API_KEY env)"
        using call Inr callGemini_unset [of "GEMINI_API_KEY env" "model env" pb] by auto
      have some: "\<not> (\<forall>b. \<forall>k<MAX_RETRIES. attempt_fails (model env k b))"
        using call Inr callGemini_all_fail [of "model env" pb "GEMINI_API_KEY env"] by auto
      from r accepted \<open>fst (truncatePDFToFivePagesBuffer (pdf env) (fbytes f)) = Inr pb\<close> call Inr loaded set some
      show ?thesis by auto
    qed
  qed
qed

lemma handleSubmit_events:
  "snd (handleSubmit lib fetch (Some f)) =
     snd (client_truncate lib f) @ [Fetch [(''file'', FileEntry (fst (client_truncate lib f)))]]"
  by (simp add: handleSubmit_def Let_def split: prod.splits sum.splits option.splits)

text \<open>
  Claim C7, amended. When the client-side truncation fails (the parse or the
  serialisation throws), the client logs the error and sends the original file. The
  server-side truncation runs on the bytes of every upload that passes the endpoint's
  file, media type and size checks, whatever the client did.
\<close>

theorem client_fallback_server_truncation:
  "(load lib (fbytes f) = Inl e \<or>
      (\<exists>pages. load lib (fbytes f) = Inr pages \<and> 5 < length pages \<and> save lib (first_five pages) = Inl e)
     \<longrightarrow> snd (handleSubmit lib fetch (Some f)) = [Warn e, Fetch [(''file'', FileEntry f)]])
   \<and> (map_of fd ''file'' = Some (FileEntry g) \<and> ftype g = ''application/pdf'' \<and> fsize g \<le> maxBytes
        \<longrightarrow> (\<exists>rest. snd (POST env (Inr fd)) = PdfLoad (fbytes g) # rest))"
proof (intro conjI impI)
  assume "load lib (fbytes f) = Inl e \<or>
      (\<exists>pages. load lib (fbytes f) = Inr pages \<and> 5 < length pages \<and> save lib (first_five pages) = Inl e)"
  then have "client_truncate lib f = (f, [Warn e])"
    by (auto simp: client_truncate_def)
  then show "snd (handleSubmit lib fetch (Some f)) = [Warn e, Fetch [(''file'', FileEntry f)]]"
    by (simp add: handleSubmit_events)
next
  assume "map_of fd ''file'' = Some (FileEntry g) \<and> ftype g = ''application/pdf'' \<and> fsize g \<le> maxBytes"
  then show "\<exists>rest. snd (POST env (Inr fd)) = PdfLoad (fbytes g) # rest"
    by (simp add: POST_accepted split: sum.splits prod.splits)
qed

section \<open>The properties on concrete inputs\<close>

theorem short_document_unchanged_witness:
  "load byte_pages (fbytes (sample_upload 3)) = Inr [7, 7, 7] \<and> length [7, 7, 7 :: nat] \<le> 5 \<and>
   truncatePDFToFivePagesBuffer byte_pages (fbytes (sample_upload 3)) =
     (Inr (fbytes (sample_upload 3)), [PdfLoad (fbytes (sample_upload 3))]) \<and>
   client_truncate byte_pages (sample_upload 3) = (sample_upload 3, [])"
proof -
  have l: "load byte_pages (fbytes (sample_upload 3)) = Inr [7, 7, 7]"
    by (simp add: byte_pages_def sample_upload_def numeral_3_eq_3)
  have n: "length [7, 7, 7 :: nat] \<le> 5" by simp
  from short_document_unchanged [OF l n] l show ?thesis by simp
qed

theorem long_document_first_five_witness:
  "load byte_pages [1, 2, 3, 4, 5, 6, 7] = Inr [1, 2, 3, 4, 5, 6, 7] \<and>
   5 < length [1, 2, 3, 4, 5, 6, 7 :: nat] \<and>
   truncatePDFToFivePagesBuffer byte_pages [1, 2, 3, 4, 5, 6, 7]
     = (Inr [1, 2, 3, 4, 5], [PdfLoad [1, 2, 3, 4, 5, 6, 7]])"
proof -
  have l: "load byte_pages [1, 2, 3, 4, 5, 6, 7] = Inr [1, 2, 3, 4, 5, 6, 7]"
    by (simp add: byte_pages_def)
  have n: "5 < length [1, 2, 3, 4, 5, 6, 7 :: nat]" by simp
  from long_document_first_five [OF l n] l show ?thesis by (simp add: byte_pages_def)
qed

theorem retries_exhausted_witness:
  "attempt_fails (failing_model 0 [1, 2, 3]) \<and>
   attempt_fails (failing_model 1 [1, 2, 3]) \<and>
   attempt_fails (failing_model 2 [1, 2, 3]) \<and>
   \<not> credential_unset (Some ''secret'') \<and>
   callGeminiUsingAiSdk (Some ''secret'') failing_model [1, 2, 3] =
     (Inl (new_Error (''Failed to get response from Gemini via AI SDK after 3 attempts: ''
             @ ''No object generated: response did not match schema.'')),
      [ModelCall [1, 2, 3], Wait 2000, ModelCall [1, 2, 3], Wait 4000, ModelCall [1, 2, 3]])"
proof -
  have f: "\<forall>k<MAX_RETRIES. attempt_fails (failing_model k [1, 2, 3])"
    by (simp add: attempt_fails_def failing_model_def safeParse_def AcordSchema_def)
  have c: "\<not> credential_unset (Some ''secret'')"
    by (simp add: credential_unset_def trim_def is_space_def)
  have g: "generateObject (failing_model 2) (ZNullable AcordSchema) [1, 2, 3] =
             Inl (Error ''AI_NoObjectGeneratedError'' ''No object generated: response did not match schema.'')"
    by (simp add: generateObject_def failing_model_def safeParse_def AcordSchema_def)
  have f': "attempt_fails (failing_model 0 [1, 2, 3])" "attempt_fails (failing_model 1 [1, 2, 3])"
    "attempt_fails (failing_model 2 [1, 2, 3])"
    using f by (simp_all add: MAX_RETRIES_def)
  from retries_exhausted [of failing_model "[1, 2, 3]" "Some ''secret''"] f c g
  have "callGeminiUsingAiSdk (Some ''secret'') failing_model [1, 2, 3] =
     (Inl (new_Error (''Failed to get response from Gemini via AI SDK after 3 attempts: ''
             @ ''No object generated: response did not match schema.'')),
      [ModelCall [1, 2, 3], Wait 2000, ModelCall [1, 2, 3], Wait 4000, ModelCall [1, 2, 3]])"
    by (auto simp: error_text_def)
  with f' c show ?thesis by blast
qed

lemma sample_upload_fields:
  "ftype (sample_upload n) = ''application/pdf''" "fsize (sample_upload n) = n"
  "fbytes (sample_upload n) = replicate n 7"
  by (simp_all add: sample_upload_def fsize_def)

lemma sample_server_fields:
  "GEMINI_API_KEY (sample_server key mdl) = key" "pdf (sample_server key mdl) = byte_pages"
  "model (sample_server key mdl) = mdl"
  by (simp_all add: sample_server_def)

lemma secret_is_set: "\<not> credential_unset (Some ''secret'')"
  by (simp add: credential_unset_def trim_def is_space_def)

lemma three_pages: "fst (truncatePDFToFivePagesBuffer byte_pages (replicate 3 7)) = Inr (replicate 3 7)"
  by (simp add: truncatePDFToFivePagesBuffer_def byte_pages_def numeral_3_eq_3)

theorem oversized_upload_rejected_witness:
  "map_of [(''file'', FileEntry (sample_upload 4194305))] ''file'' = Some (FileEntry (sample_upload 4194305)) \<and>
   fsize (sample_upload 4194305) > 4 * 1024 * 1024 \<and>
   POST (sample_server (Some ''secret'') null_model) (Inr [(''file'', FileEntry (sample_upload 4194305))]) =
     (\<lparr>status = 400, body = [(''error'', JStr ''File too large. Max 4MB.'')]\<rparr>, [])"
proof -
  have a: "map_of [(''file'', FileEntry (sample_upload 4194305))] ''file'' = Some (FileEntry (sample_upload 4194305))"
    by simp
  have b: "fsize (sample_upload 4194305) > 4 * 1024 * 1024"
    by (simp add: sample_upload_fields)
  from oversized_upload_rejected [OF a b, of "sample_server (Some ''secret'') null_model"] a b
  show ?thesis by (simp add: sample_upload_fields)
qed

theorem null_answer_is_success_witness:
  "attempt_fails (null_model 0 (replicate 3 7)) \<and> null_model 1 (replicate 3 7) = Inr JNull \<and>
   \<not> credential_unset (Some ''secret'') \<and>
   fst (POST (sample_server (Some ''secret'') null_model) (Inr [(''file'', FileEntry (sample_upload 3))]))
     = \<lparr>status = 200, body = [(''data'', JNull)]\<rparr>"
proof -
  have a: "attempt_fails (null_model 0 (replicate 3 7))"
    by (simp add: attempt_fails_def null_model_def)
  have b: "null_model 1 (replicate 3 7) = Inr JNull"
    by (simp add: null_model_def)
  have c: "\<forall>j<1. attempt_fails (null_model j (replicate 3 7))"
    using a by simp
  from null_answer_is_success [where k = 1 and env = "sample_server (Some ''secret'') null_model"
      and f = "sample_upload 3" and fd = "[(''file'', FileEntry (sample_upload 3))]"
      and pb = "replicate 3 7" and s = AcordSchema and key = None and mdl = null_model]
    a b c secret_is_set three_pages
  show ?thesis
    by (simp add: sample_upload_fields sample_server_fields MAX_RETRIES_def maxBytes_def)
qed

theorem missing_credential_witness:
  "credential_unset None \<and> credential_unset (Some []) \<and>
   callGeminiUsingAiSdk None failing_model [1, 2, 3] =
     (Inl (new_Error ''GEMINI_API_KEY is not set in environment variables''), []) \<and>
   POST (sample_server (Some []) null_model) (Inr [(''file'', FileEntry (sample_upload 3))]) =
     (\<lparr>status = 400, body = [(''error'', JStr ''API key configuration error'')]\<rparr>, [PdfLoad (replicate 3 7)])"
proof -
  have a: "credential_unset None" and b: "credential_unset (Some [])"
    by (simp_all add: credential_unset_def)
  from missing_credential [OF a, of failing_model "[1, 2, 3]"]
  have c: "callGeminiUsingAiSdk None failing_model [1, 2, 3] =
     (Inl (new_Error ''GEMINI_API_KEY is not set in environment variables''), [])"
    by blast
  from missing_credential [OF b, where env = "sample_server (Some []) null_model"
      and req = "Inr [(''file'', FileEntry (sample_upload 3))]"] three_pages
  have "POST (sample_server (Some []) null_model) (Inr [(''file'', FileEntry (sample_upload 3))]) =
     (\<lparr>status = 400, body = [(''error'', JStr ''API key configuration error'')]\<rparr>, [PdfLoad (replicate 3 7)])"
    by (simp add: sample_upload_fields sample_server_fields maxBytes_def)
  with a b c show ?thesis by blast
qed

lemma failing_model_exhausted:
  "callGeminiUsingAiSdk (Some ''secret'') failing_model b =
     (Inl (new_Error ''Failed to get response from Gemini via AI SDK after 3 attempts: No object generated: response did not match schema.''),
      [ModelCall b, Wait 2000, ModelCall b, Wait 4000, ModelCall b])"
proof -
  have "generateObject (failing_model 0) (ZNullable AcordSchema) b = Inl (Error ''TypeError'' ''fetch failed'')"
    "generateObject (failing_model (Suc 0)) (ZNullable AcordSchema) b = Inl (Error ''AI_APICallError'' ''quota exceeded'')"
    "generateObject (failing_model (Suc (Suc 0))) (ZNullable AcordSchema) b =
       Inl (Error ''AI_NoObjectGeneratedError'' ''No object generated: response did not match schema.'')"
    by (simp_all add: generateObject_def failing_model_def safeParse_def AcordSchema_def)
  from retry_loop_three_failures [OF this] secret_is_set show ?thesis
    by (simp add: callGeminiUsingAiSdk_def error_text_def)
qed

lemma exhausted_response:
  "POST (sample_server (Some ''secret'') failing_model) (Inr [(''file'', FileEntry (sample_upload 3))]) =
     (\<lparr>status = 400,
        body = [(''error'', JStr ''Error processing PDF: Failed to get response from Gemini via AI SDK after 3 attempts: No object generated: response did not match schema.'')]\<rparr>,
      [PdfLoad (replicate 3 7), ModelCall (replicate 3 7), Wait 2000, ModelCall (replicate 3 7), Wait 4000,
       ModelCall (replicate 3 7)])"
proof -
  have "normalizedMessage (new_Error ''Failed to get response from Gemini via AI SDK after 3 attempts: No object generated: response did not match schema.'')
      = ''Error processing PDF: Failed to get response from Gemini via AI SDK after 3 attempts: No object generated: response did not match schema.''"
    by (simp add: normalizedMessage_def new_Error_def message_of_def)
  then show ?thesis
    using three_pages
    by (simp add: POST_accepted sample_upload_fields sample_server_fields maxBytes_def
          failing_model_exhausted on_catch_shape)
qed

theorem response_shape_witness:
  "POST (sample_server (Some ''secret'') failing_model) (Inr [(''file'', FileEntry (sample_upload 3))]) =
     (\<lparr>status = 400,
        body = [(''error'', JStr ''Error processing PDF: Failed to get response from Gemini via AI SDK after 3 attempts: No object generated: response did not match schema.'')]\<rparr>,
      [PdfLoad (replicate 3 7), ModelCall (replicate 3 7), Wait 2000, ModelCall (replicate 3 7), Wait 4000,
       ModelCall (replicate 3 7)]) \<and>
   map_of [(''error'', JStr ''Error processing PDF: Failed to get response from Gemini via AI SDK after 3 attempts: No object generated: response did not match schema.'')] ''data'' = None \<and>
   status \<lparr>status = 400,
        body = [(''error'', JStr ''Error processing PDF: Failed to get response from Gemini via AI SDK after 3 attempts: No object generated: response did not match schema.'')]\<rparr> < 500"
  using response_shape [OF exhausted_response] exhausted_response by simp

text \<open>
  Claim C7, as stated, fails: a selected file of more than 4 MiB whose client-side
  truncation fails is sent unmodified, and the endpoint rejects it without running the
  server-side truncation (the trace is empty).
\<close>

theorem server_truncation_gated_counterexample:
  "snd (handleSubmit unreadable (fetch_from (sample_server (Some ''secret'') null_model))
         (Some (sample_upload 4194305))) =
     [Warn (new_Error ''Failed to parse PDF document''), Fetch [(''file'', FileEntry (sample_upload 4194305))]] \<and>
   POST (sample_server (Some ''secret'') null_model) (Inr [(''file'', FileEntry (sample_upload 4194305))]) =
     (\<lparr>status = 400, body = [(''error'', JStr ''File too large. Max 4MB.'')]\<rparr>, [])"
proof -
  have "client_truncate unreadable (sample_upload 4194305) =
          (sample_upload 4194305, [Warn (new_Error ''Failed to parse PDF document'')])"
    by (simp add: client_truncate_def unreadable_def)
  then have "snd (handleSubmit unreadable (fetch_from (sample_server (Some ''secret'') null_model))
         (Some (sample_upload 4194305))) =
     [Warn (new_Error ''Failed to parse PDF document''), Fetch [(''file'', FileEntry (sample_upload 4194305))]]"
    by (simp add: handleSubmit_events)
  moreover have "POST (sample_server (Some ''secret'') null_model) (Inr [(''file'', FileEntry (sample_upload 4194305))]) =
     (\<lparr>status = 400, body = [(''error'', JStr ''File too large. Max 4MB.'')]\<rparr>, [])"
    by (simp add: POST_too_large sample_upload_fields maxBytes_def)
  ultimately show ?thesis by simp
qed

theorem client_fallback_server_truncation_witness:
  "load unreadable (fbytes (sample_upload 3)) = Inl (new_Error ''Failed to parse PDF document'') \<and>
   snd (handleSubmit unreadable (fetch_from (sample_server (Some ''secret'') null_model)) (Some (sample_upload 3))) =
     [Warn (new_Error ''Failed to parse PDF document''), Fetch [(''file'', FileEntry (sample_upload 3))]] \<and>
   ftype (sample_upload 3) = ''application/pdf'' \<and> fsize (sample_upload 3) \<le> maxBytes \<and>
   (\<exists>rest. snd (POST (sample_server (Some ''secret'') null_model) (Inr [(''file'', FileEntry (sample_upload 3))]))
      = PdfLoad (fbytes (sample_upload 3)) # rest)"
proof -
  have a: "load unreadable (fbytes (sample_upload 3)) = Inl (new_Error ''Failed to parse PDF document'')"
    by (simp add: unreadable_def)
  have b: "ftype (sample_upload 3) = ''application/pdf''" "fsize (sample_upload 3) \<le> maxBytes"
    by (simp_all add: sample_upload_fields maxBytes_def)
  have c: "map_of [(''file'', FileEntry (sample_upload 3))] ''file'' = Some (FileEntry (sample_upload 3))"
    by simp
  from client_fallback_server_truncation [where lib = unreadable and f = "sample_upload 3"
      and e = "new_Error ''Failed to parse PDF document''"
      and fetch = "fetch_from (sample_server (Some ''secret'') null_model)"
      and fd = "[(''file'', FileEntry (sample_upload 3))]" and g = "sample_upload 3"
      and env = "sample_server (Some ''secret'') null_model"] a b c
  show ?thesis by blast
qed

end
